theory Spec2Isabelle
  imports
    Complex_Main
    "HOL-Library.AList"
    "HOL-Library.Char_ord"
    "HOL-Library.List_Lexorder"
    "HOL-Library.Option_ord"
    "HOL-Library.Multiset"
begin

section \<open>Values shared by the modules\<close>

text \<open>
  A Python \<^verbatim>\<open>float\<close> as far as the code can tell floats apart: the values \<^verbatim>\<open>NaN\<close>,
  \<^verbatim>\<open>Infinity\<close> and \<^verbatim>\<open>-Infinity\<close>, which \<^verbatim>\<open>json.loads\<close> accepts, and the finite floats
  by their value (the two zeros are one value: both are false, equal, and stored as the
  same text).
\<close>

datatype pyfloat = NaN | PosInf | NegInf | Finite rat

text \<open>
  The value \<^verbatim>\<open>response.json()\<close> and \<^verbatim>\<open>json.load\<close> return: Python's \<^verbatim>\<open>None\<close>,
  \<^verbatim>\<open>bool\<close>, \<^verbatim>\<open>int\<close>, \<^verbatim>\<open>float\<close>, \<^verbatim>\<open>str\<close>, \<^verbatim>\<open>list\<close> and \<^verbatim>\<open>dict\<close>. A dict is the
  list of its items in insertion order (its keys are distinct); \<open>map_of\<close> is the lookup.
\<close>

datatype json =
    JNull
  | JBool bool
  | JInt int
  | JFloat pyfloat
  | JStr string
  | JArr "json list"
  | JObj "(string \<times> json) list"

type_synonym pydict = "(string \<times> json) list"

text \<open>The exceptions the modelled code can meet, and the two base classes its handlers name.\<close>

datatype exn =
    ConnectionError
  | HTTPError
  | RequestsJSONDecodeError
  | AttributeError
  | TypeError
  | KeyError
  | StdJSONDecodeError
  | UnicodeDecodeError
  | OverflowError
  | SqliteError
  | PlaywrightError

text \<open>
  \<^verbatim>\<open>requests.exceptions.RequestException\<close> is the base of the connection, timeout and
  HTTP errors and (requests 2.27 and later) of the error \<^verbatim>\<open>response.json()\<close> raises,
  which derives from \<^verbatim>\<open>json.JSONDecodeError\<close> as well.
\<close>

fun is_RequestException :: "exn \<Rightarrow> bool" where
  "is_RequestException ConnectionError = True"
| "is_RequestException HTTPError = True"
| "is_RequestException RequestsJSONDecodeError = True"
| "is_RequestException _ = False"

fun is_JSONDecodeError :: "exn \<Rightarrow> bool" where
  "is_JSONDecodeError RequestsJSONDecodeError = True"
| "is_JSONDecodeError StdJSONDecodeError = True"
| "is_JSONDecodeError _ = False"

text \<open>Python's truth value of a JSON value (\<^verbatim>\<open>if x:\<close>, \<^verbatim>\<open>not x\<close>, \<^verbatim>\<open>a and b\<close>).\<close>

fun truthy :: "json \<Rightarrow> bool" where
  "truthy JNull = False"
| "truthy (JBool b) = b"
| "truthy (JInt n) = (n \<noteq> 0)"
| "truthy (JFloat f) = (f \<noteq> Finite 0)"
| "truthy (JStr s) = (s \<noteq> [])"
| "truthy (JArr xs) = (xs \<noteq> [])"
| "truthy (JObj kvs) = (kvs \<noteq> [])"

text \<open>\<^verbatim>\<open>d.get(key, default)\<close>: only a dict has the method.\<close>

fun py_get :: "json \<Rightarrow> string \<Rightarrow> json \<Rightarrow> exn + json" where
  "py_get (JObj kvs) key dflt = Inr (case map_of kvs key of Some v \<Rightarrow> v | None \<Rightarrow> dflt)"
| "py_get _ key dflt = Inl AttributeError"

text \<open>\<^verbatim>\<open>len(x)\<close>: \<^verbatim>\<open>None\<close>, a bool and a number have no length.\<close>

fun py_len :: "json \<Rightarrow> exn + nat" where
  "py_len (JStr s) = Inr (length s)"
| "py_len (JArr xs) = Inr (length xs)"
| "py_len (JObj kvs) = Inr (length kvs)"
| "py_len _ = Inl TypeError"

text \<open>
  \<^verbatim>\<open>acc.extend(x)\<close>: a list gives its elements, a string its characters, a dict its keys;
  anything else is not iterable.
\<close>

fun list_extend :: "json list \<Rightarrow> json \<Rightarrow> exn + json list" where
  "list_extend acc (JArr xs) = Inr (acc @ xs)"
| "list_extend acc (JStr s) = Inr (acc @ map (\<lambda>c. JStr [c]) s)"
| "list_extend acc (JObj kvs) = Inr (acc @ map (\<lambda>kv. JStr (fst kv)) kvs)"
| "list_extend acc _ = Inl TypeError"

text \<open>\<^verbatim>\<open>for x in v\<close>: the values a loop over \<open>v\<close> meets.\<close>

fun py_iter :: "json \<Rightarrow> exn + json list" where
  "py_iter (JArr xs) = Inr xs"
| "py_iter (JStr s) = Inr (map (\<lambda>c. JStr [c]) s)"
| "py_iter (JObj kvs) = Inr (map (\<lambda>kv. JStr (fst kv)) kvs)"
| "py_iter _ = Inl TypeError"

text \<open>\<^verbatim>\<open>v[key]\<close> with a string key: a dict gives the item or raises \<^verbatim>\<open>KeyError\<close>; a
  string and a list want integer indices, the other values cannot be subscripted.\<close>

fun py_item :: "json \<Rightarrow> string \<Rightarrow> exn + json" where
  "py_item (JObj kvs) key = (case map_of kvs key of Some v \<Rightarrow> Inr v | None \<Rightarrow> Inl KeyError)"
| "py_item _ key = Inl TypeError"

text \<open>
  A dict whose keys are JSON values, as \<^verbatim>\<open>cookies_dict\<close> is: a list and a dict cannot
  be keys; \<^verbatim>\<open>True\<close>, \<^verbatim>\<open>1\<close> and \<^verbatim>\<open>1.0\<close> are the same key. \<open>dict_set\<close> is
  \<^verbatim>\<open>d[k] = v\<close>: the value of an existing key is replaced in place, a new key is added at
  the end.
\<close>

fun hashable :: "json \<Rightarrow> bool" where
  "hashable (JArr xs) = False"
| "hashable (JObj kvs) = False"
| "hashable _ = True"

fun key_norm :: "json \<Rightarrow> json" where
  "key_norm (JBool b) = JInt (if b then 1 else 0)"
| "key_norm (JFloat (Finite q)) =
     (if snd (quotient_of q) = 1 then JInt (fst (quotient_of q)) else JFloat (Finite q))"
| "key_norm v = v"

fun dict_set :: "json \<Rightarrow> json \<Rightarrow> (json \<times> json) list \<Rightarrow> (json \<times> json) list" where
  "dict_set k v [] = [(k, v)]"
| "dict_set k v (kv # d) =
     (if key_norm (fst kv) = key_norm k then (fst kv, v) # d else kv # dict_set k v d)"

definition dict_has :: "(json \<times> json) list \<Rightarrow> json \<Rightarrow> bool" where
  "dict_has d k = (key_norm k \<in> set (map (\<lambda>kv. key_norm (fst kv)) d))"

subsection \<open>HTTP\<close>

datatype pval = PStr string | PInt nat

record request =
  url :: string
  params :: "(string \<times> pval) list"
  headers :: "(string \<times> string) list"
  cookies :: "(string \<times> string) list"

text \<open>
  What a GET gives back: the call raises a \<^verbatim>\<open>RequestException\<close> (connection error,
  timeout), or it returns a response with a status code and a body; the body is \<open>None\<close>
  when it is not JSON, so that \<^verbatim>\<open>response.json()\<close> raises.
\<close>

datatype http_result =
    RequestFails
  | Response nat "json option"

text \<open>
  The remote service is outside the program: \<open>remote n req\<close> is its answer to request
  \<open>req\<close> when \<open>n\<close> requests have been sent before. The requests sent are kept as a trace.
\<close>

type_synonym remote = "nat \<Rightarrow> request \<Rightarrow> http_result"

text \<open>\<^verbatim>\<open>response.ok\<close>: \<^verbatim>\<open>raise_for_status()\<close> raises for 400 \<open>\<le>\<close> status \<open><\<close> 600.\<close>

definition is_http_error :: "nat \<Rightarrow> bool" where
  "is_http_error sc = (400 \<le> sc \<and> sc < 600)"

section \<open>fetch\_participants.py\<close>

text \<open>
  \<^verbatim>\<open>SimplyCompeteAPI\<close>: the base URL and the session. The session's headers are keyed by
  the lower-case header name (a case-insensitive dict).
\<close>

record api =
  base_url :: string
  session_headers :: "(string \<times> string) list"
  session_cookies :: "(string \<times> string) list"

definition max_pages :: nat where
  "max_pages = 100"

text \<open>How the \<^verbatim>\<open>while\<close> loop of \<^verbatim>\<open>fetch_all_participants\<close> ended: one name for each
  \<^verbatim>\<open>break\<close>, by the message printed before it, and one for the loop condition
  \<^verbatim>\<open>page_no < max_pages\<close> turning false. The function prints the reason and returns the
  list alone.\<close>

datatype stop =
    FailedToFetch
  | NoMoreParticipants
  | NetworkError
  | JSONParsingError
  | UnexpectedError
  | SafetyLimit

text \<open>\<^verbatim>\<open>self.session.headers['referer'] = f"{self.base_url}/eventDetails/{event_id}/5"\<close>\<close>

definition set_referer :: "api \<Rightarrow> string \<Rightarrow> api" where
  "set_referer a event_id =
     a\<lparr>session_headers :=
         AList.update ''referer'' (base_url a @ ''/eventDetails/'' @ event_id @ ''/5'')
           (session_headers a)\<rparr>"

text \<open>The URL and \<^verbatim>\<open>params\<close> of one page; \<^verbatim>\<open>if node_id:\<close> is false for \<^verbatim>\<open>None\<close> and
  for the empty string.\<close>

definition page_request :: "api \<Rightarrow> string \<Rightarrow> string option \<Rightarrow> nat \<Rightarrow> request" where
  "page_request a event_id node_id page_no =
     \<lparr>url = base_url a @ ''/events/getEventParticipant'',
      params =
        [(''eventId'', PStr event_id),
         (''isHideUnpaidEntries'', PStr ''false''),
         (''pageNo'', PInt page_no)] @
        (case node_id of
           None \<Rightarrow> []
         | Some n \<Rightarrow>
             if n \<noteq> [] then [(''nodeId'', PStr n), (''nodeLevel'', PStr ''EventRole'')]
             else []),
      headers = session_headers (set_referer a event_id),
      cookies = session_cookies a\<rparr>"

text \<open>\<^verbatim>\<open>data.get('data', {}).get('data', {}).get('participantList', [])\<close>\<close>

definition participant_list :: "json \<Rightarrow> exn + json" where
  "participant_list data =
     (case py_get data ''data'' (JObj []) of
        Inl e \<Rightarrow> Inl e
      | Inr d1 \<Rightarrow>
          (case py_get d1 ''data'' (JObj []) of
             Inl e \<Rightarrow> Inl e
           | Inr d2 \<Rightarrow> py_get d2 ''participantList'' (JArr [])))"

text \<open>The body of the \<^verbatim>\<open>try\<close> after the GET: it raises, breaks, or goes on with the
  longer list.\<close>

datatype step = Break stop | Continue "json list"

definition try_page :: "http_result \<Rightarrow> json list \<Rightarrow> exn + step" where
  "try_page r all_participants =
     (case r of
        RequestFails \<Rightarrow> Inl ConnectionError
      | Response status_code body \<Rightarrow>
          if is_http_error status_code then Inr (Break FailedToFetch)
          else
            (case body of
               None \<Rightarrow> Inl RequestsJSONDecodeError
             | Some data \<Rightarrow>
                 (case participant_list data of
                    Inl e \<Rightarrow> Inl e
                  | Inr pl \<Rightarrow>
                      if \<not> truthy pl then Inr (Break NoMoreParticipants)
                      else
                        (case py_len pl of
                           Inl e \<Rightarrow> Inl e
                         | Inr n \<Rightarrow>
                             (case list_extend all_participants pl of
                                Inl e \<Rightarrow> Inl e
                              | Inr all' \<Rightarrow> Inr (Continue all'))))))"

text \<open>The three \<^verbatim>\<open>except\<close> clauses, in the order of the source; each one breaks.\<close>

definition except_page :: "exn \<Rightarrow> stop" where
  "except_page e =
     (if is_RequestException e then NetworkError
      else if is_JSONDecodeError e then JSONParsingError
      else UnexpectedError)"

record fetch_run =
  participants :: "json list"
  stopped :: stop
  session :: api
  sent :: "request list"

function fetch_loop ::
  "remote \<Rightarrow> string \<Rightarrow> string option \<Rightarrow> api \<Rightarrow> request list \<Rightarrow> json list \<Rightarrow> nat \<Rightarrow> fetch_run"
where
  "fetch_loop remote event_id node_id a reqs all_participants page_no =
     (if page_no < max_pages then
        (let req = page_request a event_id node_id page_no;
             a1 = set_referer a event_id;
             reqs1 = reqs @ [req]
         in case try_page (remote (length reqs) req) all_participants of
              Inl e \<Rightarrow>
                \<lparr>participants = all_participants, stopped = except_page e,
                 session = a1, sent = reqs1\<rparr>
            | Inr (Break s) \<Rightarrow>
                \<lparr>participants = all_participants, stopped = s,
                 session = a1, sent = reqs1\<rparr>
            | Inr (Continue all') \<Rightarrow>
                fetch_loop remote event_id node_id a1 reqs1 all' (page_no + 1))
      else
        \<lparr>participants = all_participants, stopped = SafetyLimit,
         session = a, sent = reqs\<rparr>)"
  by pat_completeness auto
termination
  by (relation "measure (\<lambda>(remote, event_id, node_id, a, reqs, all_participants, page_no).
        max_pages - page_no)") auto

declare fetch_loop.simps [simp del]

text \<open>\<^verbatim>\<open>fetch_all_participants(event_id, node_id)\<close> on the client \<open>a\<close>, when the requests
  \<open>reqs\<close> have been sent before.\<close>

definition fetch_all_participants ::
  "remote \<Rightarrow> api \<Rightarrow> request list \<Rightarrow> string \<Rightarrow> string option \<Rightarrow> fetch_run" where
  "fetch_all_participants remote a reqs event_id node_id =
     fetch_loop remote event_id node_id a reqs [] 0"

text \<open>What a page holds for the loop: the list found at the nested path of a response that
  is ok and parses; \<open>None\<close> for every other answer.\<close>

definition page_items :: "http_result \<Rightarrow> json list option" where
  "page_items r =
     (case r of
        RequestFails \<Rightarrow> None
      | Response status_code body \<Rightarrow>
          if is_http_error status_code then None
          else
            (case body of
               None \<Rightarrow> None
             | Some data \<Rightarrow>
                 (case participant_list data of
                    Inr (JArr xs) \<Rightarrow> Some xs
                  | _ \<Rightarrow> None)))"

text \<open>The first pages of a run that starts after the requests \<open>reqs\<close>: page \<open>i\<close> answers
  with the non-empty list \<open>pages ! i\<close>.\<close>

definition serves ::
  "remote \<Rightarrow> api \<Rightarrow> request list \<Rightarrow> string \<Rightarrow> string option \<Rightarrow> json list list \<Rightarrow> bool" where
  "serves remote a reqs event_id node_id pages =
     list_all
       (\<lambda>i. page_items (remote (length reqs + i) (page_request a event_id node_id i))
               = Some (pages ! i) \<and> pages ! i \<noteq> [])
       [0..<length pages]"

text \<open>The page index a request asks for.\<close>

definition page_of :: "request \<Rightarrow> pval option" where
  "page_of req = map_of (params req) ''pageNo''"

text \<open>A remote for examples: it answers every request for page \<open>p\<close> with status 200 and
  the list \<open>pages p\<close> at the nested path.\<close>

definition page_body :: "json list \<Rightarrow> json" where
  "page_body xs = JObj [(''data'', JObj [(''data'', JObj [(''participantList'', JArr xs)])])]"

definition serve_pages :: "(nat \<Rightarrow> json list) \<Rightarrow> remote" where
  "serve_pages pages n req =
     (case page_of req of
        Some (PInt p) \<Rightarrow> Response 200 (Some (page_body (pages p)))
      | _ \<Rightarrow> Response 404 None)"

definition example_api :: api where
  "example_api =
     \<lparr>base_url = ''https://worldtkd.simplycompete.com'',
      session_headers =
        [(''accept'', ''application/json, text/plain, */*''),
         (''accept-language'', ''en-US,en;q=0.9''),
         (''user-agent'',
            ''Mozilla/5.0 (Windows NT 10.0; Win64; x64) AppleWebKit/537.36 (KHTML, like Gecko) Chrome/138.0.0.0 Safari/537.36'')],
      session_cookies = []\<rparr>"

text \<open>The client after \<open>k\<close> iterations: the first one sets the referer, the later ones
  set it to the same value.\<close>

definition after_pages :: "api \<Rightarrow> string \<Rightarrow> nat \<Rightarrow> api" where
  "after_pages a e k = (if k = 0 then a else set_referer a e)"

section \<open>sync\_competitions.py\<close>

subsection \<open>The world of the module\<close>

text \<open>
  The file \<^verbatim>\<open>cookies.json\<close>, when it exists: its bytes are not UTF-8 text, so that
  reading it raises \<^verbatim>\<open>UnicodeDecodeError\<close>; or they are text that is not JSON, so that
  \<^verbatim>\<open>json.load\<close> raises \<^verbatim>\<open>JSONDecodeError\<close>; or they are the text of a JSON value, of
  any shape. The file is taken to be a regular file that can be read and written.
\<close>

datatype cookies_file =
    NotUTF8
  | NotJSON
  | Parsed json

text \<open>
  What one browser session gives: the launch fails; \<^verbatim>\<open>page.goto\<close> raises a navigation
  error or times out; or the page loads and the context holds the cookies
  (name and value of each; their other fields are written to the file and never read).
\<close>

datatype browser_result =
    LaunchFails
  | NavigationFails
  | NavigationTimesOut
  | Cookies "(string \<times> string) list"

text \<open>\<open>browser n\<close> is the result of the session launched when \<open>n\<close> sessions have
  been launched before.\<close>

type_synonym browser = "nat \<Rightarrow> browser_result"

text \<open>
  A call \<^verbatim>\<open>requests.get(url, params=params, headers=headers, cookies=cookies)\<close>. The
  cookies are the dict \<^verbatim>\<open>get_cookies\<close> returned, whose keys and values are whatever the
  cookie file held.
\<close>

record api_call =
  call_url :: string
  call_params :: "(string \<times> pval) list"
  call_headers :: "(string \<times> string) list"
  call_cookies :: "(json \<times> json) list"

text \<open>
  What the call gives back: it raises an exception, a \<^verbatim>\<open>RequestException\<close> for a
  connection error or a timeout, or another one (the library rejecting its arguments);
  or it returns a response with a status code and a body, \<open>None\<close> when the body is not
  JSON. \<open>remote n call\<close> is the outcome of \<open>call\<close> when \<open>n\<close> calls have been made
  before.
\<close>

datatype get_result =
    GetRaises exn
  | GetResponse nat "json option"

type_synonym events_remote = "nat \<Rightarrow> api_call \<Rightarrow> get_result"

text \<open>
  A cell of the table \<^verbatim>\<open>competitions\<close>: its three columns have TEXT affinity, so a cell
  holds NULL (\<open>None\<close>) or a text. The table is the list of its rows in rowid order.
  The order of \<open>string option\<close> is SQLite's for these cells: NULL first, then the texts
  byte by byte.
\<close>

type_synonym cell = "string option"

record row =
  row_id :: cell
  row_name :: cell
  row_start_date :: cell

text \<open>\<^verbatim>\<open>app.db\<close>: a database no statement works on (every call raises
  \<^verbatim>\<open>sqlite3.Error\<close>), or a database with or without the table.\<close>

datatype database =
    Unusable
  | Usable "row list option"

text \<open>The files, the calls of \<^verbatim>\<open>requests.get\<close> made so far, and counters of the
  browser sessions launched and closed and of the calls of \<^verbatim>\<open>os.remove\<close>.\<close>

record world =
  cookies_json :: "cookies_file option"
  app_db :: database
  http_log :: "api_call list"
  launches :: nat
  closes :: nat
  removals :: nat

subsection \<open>Cookies\<close>

text \<open>The loop \<^verbatim>\<open>for cookie in cookies_data: cookies_dict[cookie['name']] = cookie['value']\<close>;
  the right-hand side is evaluated first, then the subscript, then the key is hashed.\<close>

fun load_cookies :: "json list \<Rightarrow> (json \<times> json) list \<Rightarrow> exn + (json \<times> json) list" where
  "load_cookies [] cookies_dict = Inr cookies_dict"
| "load_cookies (cookie # cs) cookies_dict =
     (case py_item cookie ''value'' of
        Inl e \<Rightarrow> Inl e
      | Inr v \<Rightarrow>
          (case py_item cookie ''name'' of
             Inl e \<Rightarrow> Inl e
           | Inr n \<Rightarrow>
               if hashable n then load_cookies cs (dict_set n v cookies_dict)
               else Inl TypeError))"

text \<open>The same loop over the browser's cookies, which all have both fields, as strings.\<close>

definition cookies_dict_of :: "(string \<times> string) list \<Rightarrow> (json \<times> json) list" where
  "cookies_dict_of cs = fold (\<lambda>c d. dict_set (JStr (fst c)) (JStr (snd c)) d) cs []"

text \<open>What \<^verbatim>\<open>json.dump(cookies, f)\<close> writes, as far as it is read again.\<close>

definition cookies_json_of :: "(string \<times> string) list \<Rightarrow> cookies_file" where
  "cookies_json_of cs =
     Parsed (JArr (map (\<lambda>c. JObj [(''name'', JStr (fst c)), (''value'', JStr (snd c))]) cs))"

text \<open>
  \<^verbatim>\<open>_refresh_cookies_with_playwright\<close>. The launch stands before the \<^verbatim>\<open>try\<close>: its
  exception leaves the function. Inside the \<^verbatim>\<open>try\<close>, \<^verbatim>\<open>except Exception\<close> returns the
  empty dict and \<^verbatim>\<open>finally\<close> closes the browser.
\<close>

definition refresh_cookies_with_playwright ::
  "browser \<Rightarrow> world \<Rightarrow> (exn + (json \<times> json) list) \<times> world" where
  "refresh_cookies_with_playwright browser w =
     (let w1 = w\<lparr>launches := launches w + 1\<rparr> in
      case browser (launches w) of
        LaunchFails \<Rightarrow> (Inl PlaywrightError, w1)
      | NavigationFails \<Rightarrow> (Inr [], w1\<lparr>closes := closes w1 + 1\<rparr>)
      | NavigationTimesOut \<Rightarrow> (Inr [], w1\<lparr>closes := closes w1 + 1\<rparr>)
      | Cookies cs \<Rightarrow>
          (Inr (cookies_dict_of cs),
           w1\<lparr>cookies_json := Some (cookies_json_of cs), closes := closes w1 + 1\<rparr>))"

text \<open>Reading the file, \<^verbatim>\<open>json.load\<close> and the loop, inside the \<^verbatim>\<open>try\<close> of
  \<^verbatim>\<open>get_cookies\<close>.\<close>

definition read_cookies_file :: "cookies_file \<Rightarrow> exn + (json \<times> json) list" where
  "read_cookies_file file =
     (case file of
        NotUTF8 \<Rightarrow> Inl UnicodeDecodeError
      | NotJSON \<Rightarrow> Inl StdJSONDecodeError
      | Parsed cookies_data \<Rightarrow>
          (case py_iter cookies_data of
             Inl e \<Rightarrow> Inl e
           | Inr cs \<Rightarrow> load_cookies cs []))"

text \<open>\<^verbatim>\<open>get_cookies\<close>: \<^verbatim>\<open>except (json.JSONDecodeError, KeyError)\<close> catches these two and
  goes on to the refresh; any other exception of the \<^verbatim>\<open>try\<close> leaves the function.\<close>

definition get_cookies ::
  "browser \<Rightarrow> world \<Rightarrow> (exn + (json \<times> json) list) \<times> world" where
  "get_cookies browser w =
     (case cookies_json w of
        None \<Rightarrow> refresh_cookies_with_playwright browser w
      | Some file \<Rightarrow>
          (case read_cookies_file file of
             Inr cookies_dict \<Rightarrow>
               if dict_has cookies_dict (JStr ''cf_clearance'') then (Inr cookies_dict, w)
               else refresh_cookies_with_playwright browser w
           | Inl e \<Rightarrow>
               if is_JSONDecodeError e \<or> e = KeyError
               then refresh_cookies_with_playwright browser w
               else (Inl e, w)))"

subsection \<open>get\_competitions\<close>

definition quoted :: "string \<Rightarrow> string" where
  "quoted s = CHR 0x22 # s @ [CHR 0x22]"

definition competitions_request :: "(json \<times> json) list \<Rightarrow> api_call" where
  "competitions_request cs =
     \<lparr>call_url = ''https://worldtkd.simplycompete.com/events/eventList'',
      call_params =
        [(''da'', PStr ''true''),
         (''eventType'', PStr ''All''),
         (''invitationStatus'', PStr ''all''),
         (''isArchived'', PStr ''false''),
         (''itemsPerPage'', PStr ''12''),
         (''pageNumber'', PStr ''1'')],
      call_headers =
        [(''Accept'', ''application/json, text/plain, */*''),
         (''Accept-Encoding'', ''gzip, deflate, br, zstd''),
         (''Accept-Language'', ''en-US,en;q=0.9''),
         (''Cache-Control'', ''no-cache''),
         (''Priority'', ''u=1, i''),
         (''Pragma'', ''no-cache''),
         (''Referer'', ''https://worldtkd.simplycompete.com/events''),
         (''Sec-Ch-Ua'',
            quoted ''Not.A/Brand'' @ '';v='' @ quoted ''8'' @ '', '' @
            quoted ''Chromium'' @ '';v='' @ quoted ''120'' @ '', '' @
            quoted ''Google Chrome'' @ '';v='' @ quoted ''120''),
         (''Sec-Ch-Ua-Mobile'', ''?0''),
         (''Sec-Ch-Ua-Platform'', quoted ''Windows''),
         (''Sec-Fetch-Dest'', ''empty''),
         (''Sec-Fetch-Mode'', ''cors''),
         (''Sec-Fetch-Site'', ''same-origin''),
         (''User-Agent'',
            ''Mozilla/5.0 (Windows NT 10.0; Win64; x64) AppleWebKit/537.36 (KHTML, like Gecko) Chrome/120.0.0.0 Safari/537.36''),
         (''X-Requested-With'', ''XMLHttpRequest'')],
      call_cookies = cs\<rparr>"

definition max_retries :: nat where
  "max_retries = 2"

text \<open>\<^verbatim>\<open>data.get('events', data.get('data', data.get('content', data)))\<close>: the inner calls
  are evaluated first.\<close>

definition events_of :: "json \<Rightarrow> exn + json" where
  "events_of data =
     (case py_get data ''content'' data of
        Inl e \<Rightarrow> Inl e
      | Inr c \<Rightarrow>
          (case py_get data ''data'' c of
             Inl e \<Rightarrow> Inl e
           | Inr d \<Rightarrow> py_get data ''events'' d))"

text \<open>The dict built from one event.\<close>

definition competition_of :: "json \<Rightarrow> exn + pydict" where
  "competition_of event =
     (case py_get event ''id'' JNull of
        Inl e \<Rightarrow> Inl e
      | Inr i \<Rightarrow>
          (case py_get event ''name'' JNull of
             Inl e \<Rightarrow> Inl e
           | Inr n \<Rightarrow>
               (case py_get event ''date'' JNull of
                  Inl e \<Rightarrow> Inl e
                | Inr d \<Rightarrow>
                    (case py_get event ''startDate'' d of
                       Inl e \<Rightarrow> Inl e
                     | Inr s \<Rightarrow> Inr [(''id'', i), (''name'', n), (''startDate'', s)]))))"

text \<open>\<^verbatim>\<open>d.get(key)\<close> and \<^verbatim>\<open>d[key]\<close> on a dict that is known to be one; a missing key gives
  \<^verbatim>\<open>None\<close> (the code subscripts only keys it has just set).\<close>

definition dict_get :: "pydict \<Rightarrow> string \<Rightarrow> json" where
  "dict_get d key = (case map_of d key of Some v \<Rightarrow> v | None \<Rightarrow> JNull)"

text \<open>The loop over the events: \<^verbatim>\<open>if competition["id"] and competition["name"]\<close>.\<close>

fun extract_loop :: "json list \<Rightarrow> pydict list \<Rightarrow> exn + pydict list" where
  "extract_loop [] competitions = Inr competitions"
| "extract_loop (event # events) competitions =
     (case competition_of event of
        Inl e \<Rightarrow> Inl e
      | Inr competition \<Rightarrow>
          extract_loop events
            (if truthy (dict_get competition ''id'') \<and> truthy (dict_get competition ''name'')
             then competitions @ [competition] else competitions))"

text \<open>From the parsed body to the list returned; \<open>None\<close> when \<^verbatim>\<open>events\<close> is not a
  list (the function then returns \<^verbatim>\<open>[]\<close>).\<close>

definition extract_competitions :: "json \<Rightarrow> exn + pydict list option" where
  "extract_competitions data =
     (case events_of data of
        Inl e \<Rightarrow> Inl e
      | Inr (JArr events) \<Rightarrow>
          (case extract_loop events [] of
             Inl e \<Rightarrow> Inl e
           | Inr competitions \<Rightarrow> Inr (Some competitions))
      | Inr _ \<Rightarrow> Inr None)"

text \<open>The \<^verbatim>\<open>return\<close> statement a call of \<^verbatim>\<open>get_competitions\<close> leaves by, in the order of
  the source (lines 150, 185, 188, 193, 196, 199 and 201). The function returns the list
  alone: every one but the second returns \<^verbatim>\<open>[]\<close>.\<close>

datatype returned =
    NoCookiesAvailable
  | ExtractedCompetitions
  | UnexpectedStructure
  | RequestErrorOnLastAttempt
  | JSONParsingFailed
  | UnexpectedFailure
  | AttemptsExhausted

text \<open>\<^verbatim>\<open>os.path.exists("cookies.json")\<close> and \<^verbatim>\<open>os.remove\<close>.\<close>

definition remove_cookies_file :: "world \<Rightarrow> world" where
  "remove_cookies_file w =
     (if cookies_json w \<noteq> None then w\<lparr>cookies_json := None, removals := removals w + 1\<rparr>
      else w)"

text \<open>The body of the \<^verbatim>\<open>try\<close> of one attempt: it raises, returns, or goes to the next
  attempt (\<^verbatim>\<open>continue\<close>).\<close>

datatype attempt_step = Return "pydict list" returned | NextAttempt

definition try_attempt ::
  "events_remote \<Rightarrow> browser \<Rightarrow> world \<Rightarrow> (exn + attempt_step) \<times> world" where
  "try_attempt remote browser w =
     (case get_cookies browser w of
        (Inl e, w1) \<Rightarrow> (Inl e, w1)
      | (Inr cs, w1) \<Rightarrow>
          if cs = [] then (Inr (Return [] NoCookiesAvailable), w1)
          else
            (let req = competitions_request cs;
                 w2 = w1\<lparr>http_log := http_log w1 @ [req]\<rparr>
             in case remote (length (http_log w1)) req of
                  GetRaises e \<Rightarrow> (Inl e, w2)
                | GetResponse status_code body \<Rightarrow>
                    if status_code = 403 then (Inr NextAttempt, remove_cookies_file w2)
                    else if is_http_error status_code then (Inl HTTPError, w2)
                    else
                      (case body of
                         None \<Rightarrow> (Inl RequestsJSONDecodeError, w2)
                       | Some data \<Rightarrow>
                           (case extract_competitions data of
                              Inl e \<Rightarrow> (Inl e, w2)
                            | Inr None \<Rightarrow> (Inr (Return [] UnexpectedStructure), w2)
                            | Inr (Some competitions) \<Rightarrow>
                                (Inr (Return competitions ExtractedCompetitions), w2)))))"

text \<open>The \<^verbatim>\<open>except\<close> clauses of an attempt, in the order of the source: the first returns
  only on the last attempt and otherwise falls through to the next iteration.\<close>

definition except_attempt :: "exn \<Rightarrow> nat \<Rightarrow> attempt_step" where
  "except_attempt e attempt =
     (if is_RequestException e then
        (if attempt = max_retries - 1 then Return [] RequestErrorOnLastAttempt else NextAttempt)
      else if is_JSONDecodeError e then Return [] JSONParsingFailed
      else Return [] UnexpectedFailure)"

function attempts_loop ::
  "events_remote \<Rightarrow> browser \<Rightarrow> nat \<Rightarrow> world \<Rightarrow> pydict list \<times> returned \<times> world" where
  "attempts_loop remote browser attempt w =
     (if attempt < max_retries then
        (case try_attempt remote browser w of
           (r, w1) \<Rightarrow>
             (case (case r of Inl e \<Rightarrow> except_attempt e attempt | Inr s \<Rightarrow> s) of
                Return competitions ret \<Rightarrow> (competitions, ret, w1)
              | NextAttempt \<Rightarrow> attempts_loop remote browser (attempt + 1) w1))
      else ([], AttemptsExhausted, w))"
  by pat_completeness auto
termination
  by (relation "measure (\<lambda>(remote, browser, attempt, w). max_retries - attempt)") auto

declare attempts_loop.simps [simp del]

definition get_competitions ::
  "events_remote \<Rightarrow> browser \<Rightarrow> world \<Rightarrow> pydict list \<times> returned \<times> world" where
  "get_competitions remote browser w = attempts_loop remote browser 0 w"

subsection \<open>The database\<close>

text \<open>Decimal digits of a number, for an \<^verbatim>\<open>int\<close> stored in a TEXT column and for the
  count in a message.\<close>

function digits :: "nat \<Rightarrow> string" where
  "digits n =
     (if n < 10 then [char_of (48 + n)]
      else digits (n div 10) @ [char_of (48 + n mod 10)])"
  by pat_completeness auto
termination
  by (relation "measure (\<lambda>n. n)") auto

declare digits.simps [simp del]

definition show_int :: "int \<Rightarrow> string" where
  "show_int i = (if i < 0 then CHR ''-'' # digits (nat (- i)) else digits (nat i))"

text \<open>
  A Python value bound to a parameter of a statement and stored in a TEXT column:
  \<^verbatim>\<open>None\<close> is NULL, a string is itself, an \<^verbatim>\<open>int\<close> (a \<^verbatim>\<open>bool\<close> is one) its decimal
  text; an \<^verbatim>\<open>int\<close> outside 64 bits raises \<^verbatim>\<open>OverflowError\<close>, a list or a dict an
  error of \<^verbatim>\<open>sqlite3\<close>. A float is bound as a REAL: SQLite stores \<^verbatim>\<open>NaN\<close> as NULL and
  every other float as the text it renders for it. That rendering belongs to SQLite and
  not to the repository: it is the parameter \<open>real_text\<close> of the definitions below.
\<close>

fun adapt :: "(pyfloat \<Rightarrow> string) \<Rightarrow> json \<Rightarrow> exn + cell" where
  "adapt real_text JNull = Inr None"
| "adapt real_text (JBool b) = Inr (Some (if b then ''1'' else ''0''))"
| "adapt real_text (JInt i) =
     (if - (2 ^ 63) \<le> i \<and> i < 2 ^ 63 then Inr (Some (show_int i)) else Inl OverflowError)"
| "adapt real_text (JFloat f) = (if f = NaN then Inr None else Inr (Some (real_text f)))"
| "adapt real_text (JStr s) = Inr (Some s)"
| "adapt real_text (JArr xs) = Inl SqliteError"
| "adapt real_text (JObj kvs) = Inl SqliteError"

text \<open>The parameters \<^verbatim>\<open>(comp.get('id'), comp.get('name'), comp.get('startDate'))\<close>, bound
  in order.\<close>

definition bind_row :: "(pyfloat \<Rightarrow> string) \<Rightarrow> pydict \<Rightarrow> exn + row" where
  "bind_row real_text competition =
     (case adapt real_text (dict_get competition ''id'') of
        Inl e \<Rightarrow> Inl e
      | Inr i \<Rightarrow>
          (case adapt real_text (dict_get competition ''name'') of
             Inl e \<Rightarrow> Inl e
           | Inr n \<Rightarrow>
               (case adapt real_text (dict_get competition ''startDate'') of
                  Inl e \<Rightarrow> Inl e
                | Inr s \<Rightarrow> Inr \<lparr>row_id = i, row_name = n, row_start_date = s\<rparr>)))"

text \<open>
  \<^verbatim>\<open>INSERT OR REPLACE\<close> on a table whose primary key is \<^verbatim>\<open>id TEXT PRIMARY KEY\<close>: the rows
  with the same key are deleted and the new row gets the next rowid. The column is not
  declared NOT NULL, and SQLite holds NULL keys distinct from every key: a row with a
  NULL \<^verbatim>\<open>id\<close> replaces nothing.
\<close>

definition insert_or_replace :: "row \<Rightarrow> row list \<Rightarrow> row list" where
  "insert_or_replace r rows =
     (case row_id r of
        None \<Rightarrow> rows @ [r]
      | Some k \<Rightarrow> filter (\<lambda>x. row_id x \<noteq> Some k) rows @ [r])"

text \<open>The loop \<^verbatim>\<open>for comp in competitions: cursor.execute(...)\<close> inside one transaction.\<close>

fun insert_all :: "(pyfloat \<Rightarrow> string) \<Rightarrow> pydict list \<Rightarrow> row list \<Rightarrow> exn + row list" where
  "insert_all real_text [] rows = Inr rows"
| "insert_all real_text (competition # competitions) rows =
     (case bind_row real_text competition of
        Inl e \<Rightarrow> Inl e
      | Inr r \<Rightarrow> insert_all real_text competitions (insert_or_replace r rows))"

text \<open>
  \<^verbatim>\<open>save_competitions\<close>: \<^verbatim>\<open>CREATE TABLE IF NOT EXISTS\<close> takes effect at once; the inserts
  are committed together after the loop, and an exception before the commit leaves the
  rows as they were (the connection is closed without a commit).
  \<^verbatim>\<open>except sqlite3.Error\<close> swallows the errors of \<^verbatim>\<open>sqlite3\<close>; any other exception leaves
  the function (the first component).
\<close>

definition save_competitions ::
  "(pyfloat \<Rightarrow> string) \<Rightarrow> pydict list \<Rightarrow> database \<Rightarrow> exn option \<times> database" where
  "save_competitions real_text competitions db =
     (case db of
        Unusable \<Rightarrow> (None, Unusable)
      | Usable t \<Rightarrow>
          (let rows = (case t of None \<Rightarrow> [] | Some rs \<Rightarrow> rs) in
           case insert_all real_text competitions rows of
             Inr rows' \<Rightarrow> (None, Usable (Some rows'))
           | Inl e \<Rightarrow> (if e = SqliteError then None else Some e, Usable (Some rows))))"

definition cell_value :: "cell \<Rightarrow> json" where
  "cell_value c = (case c of None \<Rightarrow> JNull | Some s \<Rightarrow> JStr s)"

definition row_dict :: "row \<Rightarrow> pydict" where
  "row_dict r =
     [(''id'', cell_value (row_id r)),
      (''name'', cell_value (row_name r)),
      (''start_date'', cell_value (row_start_date r))]"

text \<open>
  \<^verbatim>\<open>get_competitions_from_db\<close>: \<^verbatim>\<open>SELECT id, name, start_date FROM competitions ORDER BY
  start_date\<close>. The order of rows with equal \<^verbatim>\<open>start_date\<close> is not fixed by SQL; the model
  keeps them in rowid order. Without the table the statement raises an error of
  \<^verbatim>\<open>sqlite3\<close>, which the function catches.
\<close>

definition get_competitions_from_db :: "database \<Rightarrow> pydict list" where
  "get_competitions_from_db db =
     (case db of
        Unusable \<Rightarrow> []
      | Usable None \<Rightarrow> []
      | Usable (Some rows) \<Rightarrow> map row_dict (sort_key row_start_date rows))"

section \<open>app.py\<close>

text \<open>A response of the Flask application: the status and the JSON object
  \<^verbatim>\<open>jsonify\<close> is given.\<close>

record reply =
  status :: nat
  payload :: pydict

definition exn_message :: "exn \<Rightarrow> string" where
  "exn_message e =
     (if e = OverflowError then ''Python int too large to convert to SQLite INTEGER''
      else [])"

definition not_found_reply :: reply where
  "not_found_reply =
     \<lparr>status = 404,
      payload =
        [(''success'', JBool False),
         (''message'', JStr ''No competitions found or API call failed''),
         (''count'', JInt 0),
         (''competitions'', JArr [])]\<rparr>"

definition synced_reply :: "pydict list \<Rightarrow> reply" where
  "synced_reply competitions =
     \<lparr>status = 200,
      payload =
        [(''success'', JBool True),
         (''message'',
            JStr (''Successfully synced '' @ digits (length competitions) @ '' competitions'')),
         (''count'', JInt (int (length competitions))),
         (''competitions'', JArr (map JObj competitions))]\<rparr>"

definition error_reply :: "exn \<Rightarrow> reply" where
  "error_reply e =
     \<lparr>status = 500,
      payload =
        [(''success'', JBool False),
         (''error'', JStr (exn_message e)),
         (''competitions'', JArr [])]\<rparr>"

text \<open>The route \<^verbatim>\<open>/competitions/sync\<close>.\<close>

definition sync_competitions ::
  "(pyfloat \<Rightarrow> string) \<Rightarrow> events_remote \<Rightarrow> browser \<Rightarrow> world \<Rightarrow> reply \<times> world" where
  "sync_competitions real_text remote browser w =
     (case get_competitions remote browser w of
        (competitions, ret, w1) \<Rightarrow>
          if competitions = [] then (not_found_reply, w1)
          else
            (case save_competitions real_text competitions (app_db w1) of
               (Some e, db) \<Rightarrow> (error_reply e, w1\<lparr>app_db := db\<rparr>)
             | (None, db) \<Rightarrow> (synced_reply competitions, w1\<lparr>app_db := db\<rparr>)))"

text \<open>The route \<^verbatim>\<open>/competitions\<close>.\<close>

definition get_competitions_endpoint :: "world \<Rightarrow> reply" where
  "get_competitions_endpoint w =
     (let competitions = get_competitions_from_db (app_db w) in
      \<lparr>status = 200,
       payload =
         [(''success'', JBool True),
          (''count'', JInt (int (length competitions))),
          (''competitions'', JArr (map JObj competitions))]\<rparr>)"

section \<open>Example worlds\<close>

text \<open>A world with no cookie file and an empty database; a browser that always obtains
  the clearance cookie; remotes that always reject, that always fail to connect, and that
  answer with a fixed body.\<close>

definition fresh_world :: world where
  "fresh_world =
     \<lparr>cookies_json = None, app_db = Usable None, http_log = [],
      launches = 0, closes = 0, removals = 0\<rparr>"

definition clearing_browser :: browser where
  "clearing_browser n = Cookies [(''cf_clearance'', ''token'')]"

definition rejecting_remote :: events_remote where
  "rejecting_remote n call = GetResponse 403 None"

definition failing_remote :: events_remote where
  "failing_remote n call = GetRaises ConnectionError"

definition answering_remote :: "json \<Rightarrow> events_remote" where
  "answering_remote data n call = GetResponse 200 (Some data)"

text \<open>A remote whose first answer is a connection error and whose later answers hold
  \<open>data\<close>.\<close>

definition flaky_remote :: "json \<Rightarrow> events_remote" where
  "flaky_remote data n call =
     (if n = 0 then GetRaises ConnectionError else GetResponse 200 (Some data))"

text \<open>A world whose cookie file holds the clearance cookie, and a browser whose
  navigation always fails.\<close>

definition stored_world :: world where
  "stored_world = fresh_world\<lparr>cookies_json := Some (cookies_json_of [(''cf_clearance'', ''token'')])\<rparr>"

definition stuck_browser :: browser where
  "stuck_browser n = NavigationFails"

text \<open>A rendering of floats for the examples: SQLite's text of the infinities and of
  zero. The examples store no other float.\<close>

definition example_real_text :: "pyfloat \<Rightarrow> string" where
  "example_real_text f = (case f of PosInf \<Rightarrow> ''Inf'' | NegInf \<Rightarrow> ''-Inf'' | _ \<Rightarrow> ''0.0'')"

section \<open>Notions the properties are stated with\<close>

text \<open>The remote answers the same request in the same way whenever it is asked.\<close>

definition fixed_remote :: "remote \<Rightarrow> bool" where
  "fixed_remote remote = (\<forall>n m req. remote n req = remote m req)"

text \<open>The world after an attempt of \<^verbatim>\<open>get_competitions\<close> that called the remote with
  the cookies \<open>cs\<close> in the world \<open>w\<close> \<^verbatim>\<open>get_cookies\<close> left: the call is logged; after a
  rejection (status 403) the cookie file is removed as well.\<close>

definition after_call :: "world \<Rightarrow> (json \<times> json) list \<Rightarrow> world" where
  "after_call w cs = w\<lparr>http_log := http_log w @ [competitions_request cs]\<rparr>"

definition after_rejection :: "world \<Rightarrow> (json \<times> json) list \<Rightarrow> world" where
  "after_rejection w cs = remove_cookies_file (after_call w cs)"

text \<open>What \<^verbatim>\<open>get_competitions\<close> keeps of an event that is an object, and the events it
  keeps, said directly: the three fields, \<^verbatim>\<open>startDate\<close> falling back to \<^verbatim>\<open>date\<close>; an
  event needs a true \<^verbatim>\<open>id\<close> and a true \<^verbatim>\<open>name\<close>.\<close>

definition competition_fields :: "pydict \<Rightarrow> pydict" where
  "competition_fields event =
     [(''id'', dict_get event ''id''),
      (''name'', dict_get event ''name''),
      (''startDate'',
         (case map_of event ''startDate'' of Some s \<Rightarrow> s | None \<Rightarrow> dict_get event ''date''))]"

definition has_required_fields :: "pydict \<Rightarrow> bool" where
  "has_required_fields event =
     (truthy (dict_get event ''id'') \<and> truthy (dict_get event ''name''))"

text \<open>The rows a list of competitions binds to, or the first error.\<close>

fun bind_all :: "(pyfloat \<Rightarrow> string) \<Rightarrow> pydict list \<Rightarrow> exn + row list" where
  "bind_all real_text [] = Inr []"
| "bind_all real_text (c # cs) =
     (case bind_row real_text c of
        Inl e \<Rightarrow> Inl e
      | Inr r \<Rightarrow> (case bind_all real_text cs of Inl e \<Rightarrow> Inl e | Inr rs \<Rightarrow> Inr (r # rs)))"

text \<open>Of the rows of a list, the last one of each key.\<close>

fun last_of_key :: "row list \<Rightarrow> row list" where
  "last_of_key [] = []"
| "last_of_key (r # rs) = (if row_id r \<in> row_id ` set rs then [] else [r]) @ last_of_key rs"

section \<open>Properties of the paginated fetch\<close>

lemma set_referer_idem [simp]: "set_referer (set_referer a e) e = set_referer a e"
  by (simp add: set_referer_def update_last)

lemma base_url_set_referer [simp]: "base_url (set_referer a e) = base_url a"
  by (simp add: set_referer_def)

lemma session_cookies_set_referer [simp]:
  "session_cookies (set_referer a e) = session_cookies a"
  by (simp add: set_referer_def)

lemma page_request_set_referer [simp]:
  "page_request (set_referer a e) e n p = page_request a e n p"
  by (simp add: page_request_def)

lemma page_of_page_request [simp]: "page_of (page_request a e n p) = Some (PInt p)"
  by (simp add: page_of_def page_request_def)

lemma try_page_items:
  "page_items r = Some xs \<Longrightarrow> xs \<noteq> [] \<Longrightarrow> try_page r acc = Inr (Continue (acc @ xs))"
  by (auto simp: page_items_def try_page_def
      split: http_result.splits option.splits sum.splits json.splits if_splits)

lemma try_page_empty:
  "page_items r = Some [] \<Longrightarrow> try_page r acc = Inr (Break NoMoreParticipants)"
  by (auto simp: page_items_def try_page_def
      split: http_result.splits option.splits sum.splits json.splits if_splits)

text \<open>\<open>k\<close> pages with items take the loop \<open>k\<close> iterations further.\<close>

lemma fetch_loop_pages:
  assumes "p + k \<le> max_pages"
    and "\<forall>i<k. page_items (remote (length reqs + i) (page_request a e n (p + i)))
                 = Some (pages i) \<and> pages i \<noteq> []"
  shows "fetch_loop remote e n a reqs acc p =
         fetch_loop remote e n (after_pages a e k)
           (reqs @ map (page_request a e n) [p..<p + k])
           (acc @ concat (map pages [0..<k])) (p + k)"
  using assms
proof (induction k)
  case 0
  then show ?case by (simp add: after_pages_def)
next
  case (Suc k)
  let ?a = "after_pages a e k"
  let ?reqs = "reqs @ map (page_request a e n) [p..<p + k]"
  let ?acc = "acc @ concat (map pages [0..<k])"
  have IH: "fetch_loop remote e n a reqs acc p = fetch_loop remote e n ?a ?reqs ?acc (p + k)"
    using Suc by simp
  have lt: "p + k < max_pages" using Suc.prems by simp
  have req: "page_request ?a e n (p + k) = page_request a e n (p + k)"
    by (simp add: after_pages_def)
  have pg: "page_items (remote (length reqs + k) (page_request a e n (p + k))) = Some (pages k)"
    and ne: "pages k \<noteq> []"
    using Suc.prems by simp_all
  have tp: "try_page (remote (length reqs + k) (page_request a e n (p + k))) ?acc
      = Inr (Continue (?acc @ pages k))"
    using try_page_items [OF pg ne] .
  have nxt: "set_referer ?a e = after_pages a e (Suc k)"
    by (simp add: after_pages_def)
  have "fetch_loop remote e n ?a ?reqs ?acc (p + k) =
        fetch_loop remote e n (after_pages a e (Suc k))
          (?reqs @ [page_request a e n (p + k)]) (?acc @ pages k) (p + k + 1)"
    by (subst fetch_loop.simps) (simp add: lt tp Let_def nxt req del: upt_Suc)
  then show ?case
    using IH by simp
qed

lemma serves_nth:
  "serves remote a reqs e n pages \<Longrightarrow> i < length pages \<Longrightarrow>
     page_items (remote (length reqs + i) (page_request a e n i)) = Some (pages ! i)
     \<and> pages ! i \<noteq> []"
  by (simp add: serves_def list_all_iff)

lemma concat_map_nth: "concat (map ((!) xss) [0..<length xss]) = concat xss"
  by (simp add: map_nth)

text \<open>The run over a served prefix of pages, from the start of the function.\<close>

lemma fetch_all_served:
  assumes "length pages \<le> max_pages" and "serves remote a reqs e n pages"
  shows "fetch_all_participants remote a reqs e n =
         fetch_loop remote e n (after_pages a e (length pages))
           (reqs @ map (page_request a e n) [0..<length pages]) (concat pages) (length pages)"
proof -
  have "\<forall>i<length pages.
          page_items (remote (length reqs + i) (page_request a e n (0 + i))) = Some (pages ! i)
          \<and> pages ! i \<noteq> []"
    using serves_nth [OF assms(2)] by simp
  from fetch_loop_pages [where p = 0 and acc = "[]" and pages = "(!) pages", OF _ this] assms(1)
  show ?thesis
    by (simp add: fetch_all_participants_def concat_map_nth)
qed

lemma fetch_all_limit:
  assumes "length pages = max_pages" and "serves remote a reqs e n pages"
  shows "fetch_all_participants remote a reqs e n =
         \<lparr>participants = concat pages, stopped = SafetyLimit,
          session = set_referer a e,
          sent = reqs @ map (page_request a e n) [0..<max_pages]\<rparr>"
proof -
  have le: "length pages \<le> max_pages" using assms(1) by simp
  have ref: "after_pages a e (length pages) = set_referer a e"
    by (simp add: after_pages_def assms(1) max_pages_def)
  show ?thesis
    unfolding fetch_all_served [OF le assms(2)] ref
    by (subst fetch_loop.simps) (simp add: assms(1))
qed

lemma serves_serve_pages:
  "(\<And>i. i < k \<Longrightarrow> f i \<noteq> []) \<Longrightarrow> serves (serve_pages f) a reqs e n (map f [0..<k])"
  by (simp add: serves_def list_all_iff serve_pages_def page_items_def is_http_error_def
      participant_list_def page_body_def)

lemma page_items_serve_pages [simp]:
  "page_items (serve_pages f m (page_request a e n p)) = Some (f p)"
  by (simp add: serve_pages_def page_items_def is_http_error_def participant_list_def
      page_body_def)

lemma fetch_all_transport:
  assumes "length pages < max_pages"
    and "serves remote a reqs e n pages"
    and "remote (length reqs + length pages) (page_request a e n (length pages)) = RequestFails"
  shows "fetch_all_participants remote a reqs e n =
         \<lparr>participants = concat pages, stopped = NetworkError,
          session = set_referer a e,
          sent = reqs @ map (page_request a e n) [0..<Suc (length pages)]\<rparr>"
proof -
  have le: "length pages \<le> max_pages" using assms(1) by simp
  have ref: "set_referer (after_pages a e (length pages)) e = set_referer a e"
    by (simp add: after_pages_def)
  have req: "page_request (after_pages a e (length pages)) e n (length pages)
      = page_request a e n (length pages)"
    by (simp add: after_pages_def)
  show ?thesis
    unfolding fetch_all_served [OF le assms(2)]
    by (subst fetch_loop.simps)
      (simp add: assms(1) assms(3) Let_def req ref try_page_def except_page_def)
qed

subsection \<open>C1: the first empty page ends the fetch\<close>

text \<open>
  C1, as amended. For every run in which the pages \<open>0..k-1\<close> answer with the non-empty
  item lists \<open>pages\<close>, page \<open>k\<close> is the first empty page and \<open>k\<close> is below the safety
  limit \<open>max_pages\<close> = 100, \<^verbatim>\<open>fetch_all_participants\<close> returns the concatenation of the
  item lists in page order, leaves its loop by the empty-page \<^verbatim>\<open>break\<close> (the reason
  Exhausted, which the code prints and does not return) and has sent exactly the
  \<open>k + 1\<close> requests for the pages \<open>0..k\<close>.
\<close>

theorem fetch_until_first_empty_page:
  assumes "length pages < max_pages"
    and "serves remote a reqs event_id node_id pages"
    and "page_items (remote (length reqs + length pages)
           (page_request a event_id node_id (length pages))) = Some []"
  shows "fetch_all_participants remote a reqs event_id node_id =
         \<lparr>participants = concat pages, stopped = NoMoreParticipants,
          session = set_referer a event_id,
          sent = reqs @ map (page_request a event_id node_id) [0..<Suc (length pages)]\<rparr>"
proof -
  have le: "length pages \<le> max_pages" using assms(1) by simp
  have ref: "set_referer (after_pages a event_id (length pages)) event_id = set_referer a event_id"
    by (simp add: after_pages_def)
  have req: "page_request (after_pages a event_id (length pages)) event_id node_id (length pages)
      = page_request a event_id node_id (length pages)"
    by (simp add: after_pages_def)
  show ?thesis
    unfolding fetch_all_served [OF le assms(2)]
    by (subst fetch_loop.simps)
      (simp add: assms(1) Let_def req ref try_page_empty [OF assms(3)])
qed

text \<open>The scenario of the specification: pages of 50, 50 and 0 items give 100 items and
  the three requests for the pages 0, 1 and 2.\<close>

theorem fetch_until_first_empty_page_witness:
  "length (participants (fetch_all_participants
       (serve_pages (\<lambda>p. if p < 2 then replicate 50 (JObj []) else []))
       example_api [] ''E'' None)) = 100
   \<and> stopped (fetch_all_participants
       (serve_pages (\<lambda>p. if p < 2 then replicate 50 (JObj []) else []))
       example_api [] ''E'' None) = NoMoreParticipants
   \<and> map page_of (sent (fetch_all_participants
       (serve_pages (\<lambda>p. if p < 2 then replicate 50 (JObj []) else []))
       example_api [] ''E'' None)) = [Some (PInt 0), Some (PInt 1), Some (PInt 2)]"
proof -
  let ?f = "\<lambda>p::nat. if p < 2 then replicate 50 (JObj []) else []"
  have len: "length (map ?f [0..<2]) < max_pages"
    by (simp add: max_pages_def)
  have srv: "serves (serve_pages ?f) example_api [] ''E'' None (map ?f [0..<2])"
    by (rule serves_serve_pages) simp
  have emp: "page_items (serve_pages ?f (length ([]::request list) + length (map ?f [0..<2]))
      (page_request example_api ''E'' None (length (map ?f [0..<2])))) = Some []"
    by simp
  have two: "[0..<2] = [0, Suc 0]" "[0..<Suc 2] = [0, Suc 0, 2]"
    by (simp_all add: upt_rec)
  show ?thesis
    unfolding fetch_until_first_empty_page [OF len srv emp]
    by (simp add: two)
qed

text \<open>C1 as stated fails at the safety limit: when page 100 is the first empty page the
  loop has stopped before asking for it, by its limit and after 100 requests, not 101.\<close>

theorem fetch_first_empty_page_counterexample:
  "serves (serve_pages (\<lambda>p. if p < 100 then [JInt 1] else [])) example_api [] ''E'' None
     (map (\<lambda>p. if p < 100 then [JInt 1] else []) [0..<100])
   \<and> page_items (serve_pages (\<lambda>p. if p < 100 then [JInt 1] else []) 100
        (page_request example_api ''E'' None 100)) = Some []
   \<and> stopped (fetch_all_participants (serve_pages (\<lambda>p. if p < 100 then [JInt 1] else []))
        example_api [] ''E'' None) = SafetyLimit
   \<and> length (sent (fetch_all_participants (serve_pages (\<lambda>p. if p < 100 then [JInt 1] else []))
        example_api [] ''E'' None)) = 100"
proof -
  let ?f = "\<lambda>p::nat. if p < 100 then [JInt 1] else []"
  have len: "length (map ?f [0..<100]) = max_pages"
    by (simp add: max_pages_def)
  have srv: "serves (serve_pages ?f) example_api [] ''E'' None (map ?f [0..<100])"
    by (rule serves_serve_pages) simp
  show ?thesis
    unfolding fetch_all_limit [OF len srv]
    using srv by (simp add: max_pages_def)
qed

subsection \<open>C2: the safety limit\<close>

text \<open>
  C2. If every page up to the limit answers with a non-empty item list (the lists
  \<open>pages\<close>, one for each of the page indices \<open>0..max_pages - 1\<close>), the fetch stops by
  the loop condition (the reason SafetyStopped) with the items of all these pages, and
  the requests it has sent are those for the page indices \<open>0..max_pages - 1\<close>: page
  \<open>max_pages\<close> is never asked for.
\<close>

theorem fetch_stops_at_max_pages:
  assumes "length pages = max_pages"
    and "serves remote a reqs event_id node_id pages"
  shows "fetch_all_participants remote a reqs event_id node_id =
           \<lparr>participants = concat pages, stopped = SafetyLimit,
            session = set_referer a event_id,
            sent = reqs @ map (page_request a event_id node_id) [0..<max_pages]\<rparr>
       \<and> map page_of (drop (length reqs)
            (sent (fetch_all_participants remote a reqs event_id node_id)))
           = map (\<lambda>p. Some (PInt p)) [0..<max_pages]"
  using fetch_all_limit [OF assms] by (simp add: comp_def)

theorem fetch_stops_at_max_pages_witness:
  "stopped (fetch_all_participants (serve_pages (\<lambda>p. [JInt (int p)])) example_api [] ''E'' None)
     = SafetyLimit
   \<and> participants (fetch_all_participants (serve_pages (\<lambda>p. [JInt (int p)]))
        example_api [] ''E'' None)
     = map (\<lambda>p. JInt (int p)) [0..<100]
   \<and> map page_of (sent (fetch_all_participants (serve_pages (\<lambda>p. [JInt (int p)]))
        example_api [] ''E'' None))
     = map (\<lambda>p. Some (PInt p)) [0..<100]"
proof -
  let ?f = "\<lambda>p::nat. [JInt (int p)]"
  have len: "length (map ?f [0..<100]) = max_pages"
    by (simp add: max_pages_def)
  have srv: "serves (serve_pages ?f) example_api [] ''E'' None (map ?f [0..<100])"
    by (rule serves_serve_pages) simp
  have cc: "concat (map ?f xs) = map (\<lambda>p. JInt (int p)) xs" for xs
    by (induction xs) simp_all
  show ?thesis
    using fetch_stops_at_max_pages [OF len srv] by (simp add: max_pages_def cc)
qed

subsection \<open>C9: determinism\<close>

lemma page_request_cong:
  assumes "set_referer a' e = set_referer a e"
  shows "page_request a' e n p = page_request a e n p"
proof -
  have "page_request (set_referer a' e) e n p = page_request (set_referer a e) e n p"
    using assms by simp
  then show ?thesis by simp
qed

text \<open>With a fixed remote, the items and the reason of the loop depend neither on the
  requests sent before nor on whether the referer is already set.\<close>

lemma fetch_loop_indep:
  assumes indep: "fixed_remote remote"
    and "set_referer a' e = set_referer a e"
  shows "participants (fetch_loop remote e n a' reqs' acc p)
           = participants (fetch_loop remote e n a reqs acc p)
       \<and> stopped (fetch_loop remote e n a' reqs' acc p)
           = stopped (fetch_loop remote e n a reqs acc p)"
  using assms(2)
proof (induction "max_pages - p" arbitrary: a a' reqs reqs' acc p)
  case 0
  then show ?case
    by (subst (1 2 3 4) fetch_loop.simps) simp
next
  case (Suc d)
  have lt: "p < max_pages" using Suc.hyps(2) by simp
  have req: "page_request a' e n p = page_request a e n p"
    using page_request_cong [OF Suc.prems] .
  have rem: "remote (length reqs') (page_request a e n p)
      = remote (length reqs) (page_request a e n p)"
    using indep unfolding fixed_remote_def by blast
  have nxt: "set_referer (set_referer a' e) e = set_referer (set_referer a e) e"
    using Suc.prems by simp
  have d: "d = max_pages - (p + 1)" using Suc.hyps(2) by simp
  note IH = Suc.hyps(1) [OF d nxt]
  show ?case
    apply (subst (1 2 3 4) fetch_loop.simps)
    apply (simp add: lt Let_def req rem split: sum.splits step.splits)
    using IH apply simp
    done
qed

lemma session_fetch_loop:
  "set_referer (session (fetch_loop remote e n a reqs acc p)) e = set_referer a e"
proof (induction "max_pages - p" arbitrary: a reqs acc p)
  case 0
  then show ?case by (subst fetch_loop.simps) simp
next
  case (Suc d)
  have lt: "p < max_pages" using Suc.hyps(2) by simp
  have d: "d = max_pages - (p + 1)" using Suc.hyps(2) by simp
  note IH = Suc.hyps(1) [OF d]
  show ?case
    apply (subst fetch_loop.simps)
    apply (simp add: lt Let_def split: sum.splits step.splits)
    using IH apply simp
    done
qed

text \<open>
  C9. For a fixed remote (the same answer to the same request on every call; a client
  whose cookies no response changes), two runs of \<^verbatim>\<open>fetch_all_participants\<close> with the
  same event and node give the same items in the same order and the same reason: both
  the second run on the same client object, after the requests of the first, and a run
  of the same client at any other moment (after any requests \<open>reqs'\<close>).
\<close>

theorem fetch_deterministic:
  assumes "fixed_remote remote"
  shows "(let run1 = fetch_all_participants remote a reqs event_id node_id;
              run2 = fetch_all_participants remote (session run1) (sent run1) event_id node_id;
              run3 = fetch_all_participants remote a reqs' event_id node_id
          in participants run2 = participants run1 \<and> stopped run2 = stopped run1
             \<and> participants run3 = participants run1 \<and> stopped run3 = stopped run1)"
proof -
  let ?run1 = "fetch_all_participants remote a reqs event_id node_id"
  have ref: "set_referer (session ?run1) event_id = set_referer a event_id"
    unfolding fetch_all_participants_def by (rule session_fetch_loop)
  have two: "participants (fetch_all_participants remote (session ?run1) (sent ?run1)
                 event_id node_id) = participants ?run1
      \<and> stopped (fetch_all_participants remote (session ?run1) (sent ?run1)
                 event_id node_id) = stopped ?run1"
    using fetch_loop_indep [OF assms ref, where n = node_id and reqs' = "sent ?run1"
        and acc = "[]" and p = 0 and reqs = reqs]
    by (simp add: fetch_all_participants_def)
  have three: "participants (fetch_all_participants remote a reqs' event_id node_id)
                 = participants ?run1
      \<and> stopped (fetch_all_participants remote a reqs' event_id node_id) = stopped ?run1"
    using fetch_loop_indep [OF assms refl, where n = node_id and reqs' = reqs'
        and acc = "[]" and p = 0 and reqs = reqs]
    by (simp add: fetch_all_participants_def)
  show ?thesis using two three by (simp add: Let_def)
qed

lemma fixed_serve_pages: "fixed_remote (serve_pages f)"
  by (simp add: fixed_remote_def serve_pages_def)

theorem fetch_deterministic_witness:
  "fixed_remote (serve_pages (\<lambda>p. if p < 2 then [JInt (int p)] else []))
   \<and> participants (fetch_all_participants (serve_pages (\<lambda>p. if p < 2 then [JInt (int p)] else []))
        (session (fetch_all_participants (serve_pages (\<lambda>p. if p < 2 then [JInt (int p)] else []))
           example_api [] ''E'' None))
        (sent (fetch_all_participants (serve_pages (\<lambda>p. if p < 2 then [JInt (int p)] else []))
           example_api [] ''E'' None))
        ''E'' None)
     = participants (fetch_all_participants (serve_pages (\<lambda>p. if p < 2 then [JInt (int p)] else []))
        example_api [] ''E'' None)"
  using fetch_deterministic [OF fixed_serve_pages [of "\<lambda>p. if p < 2 then [JInt (int p)] else []"],
      where a = example_api
        and reqs = "[]" and event_id = "''E''" and node_id = None and reqs' = "[]"]
  by (simp add: Let_def fixed_serve_pages)

section \<open>Properties of the competition sync\<close>

subsection \<open>Obtaining cookies\<close>

lemma refresh_frame:
  "refresh_cookies_with_playwright browser w = (r, w1) \<Longrightarrow>
     http_log w1 = http_log w \<and> removals w1 = removals w \<and> app_db w1 = app_db w"
  by (auto simp: refresh_cookies_with_playwright_def Let_def split: browser_result.splits)

lemma refresh_file:
  "refresh_cookies_with_playwright browser w = (Inr cs, w1) \<Longrightarrow> cs \<noteq> [] \<Longrightarrow>
     cookies_json w1 \<noteq> None"
  by (auto simp: refresh_cookies_with_playwright_def Let_def split: browser_result.splits)

text \<open>\<^verbatim>\<open>get_cookies\<close> makes no call and removes no file, and a non-empty dict it returns
  comes with a cookie file: the one it was read from or the one the refresh wrote.\<close>

lemma get_cookies_frame:
  "get_cookies browser w = (r, w1) \<Longrightarrow>
     http_log w1 = http_log w \<and> removals w1 = removals w \<and> app_db w1 = app_db w"
  by (auto simp: get_cookies_def split: option.splits sum.splits if_splits dest: refresh_frame)

lemma get_cookies_file:
  "get_cookies browser w = (Inr cs, w1) \<Longrightarrow> cs \<noteq> [] \<Longrightarrow> cookies_json w1 \<noteq> None"
  by (auto simp: get_cookies_def split: option.splits sum.splits if_splits dest: refresh_file)

subsection \<open>One attempt\<close>

lemma http_log_after_call [simp]:
  "http_log (after_call w cs) = http_log w @ [competitions_request cs]"
  by (simp add: after_call_def)

lemma http_log_remove [simp]: "http_log (remove_cookies_file w) = http_log w"
  by (simp add: remove_cookies_file_def)

lemma http_log_after_rejection [simp]:
  "http_log (after_rejection w cs) = http_log w @ [competitions_request cs]"
  by (simp add: after_rejection_def)

lemma cookies_json_after_rejection [simp]: "cookies_json (after_rejection w cs) = None"
  by (simp add: after_rejection_def remove_cookies_file_def after_call_def)

lemma removals_after_rejection:
  "cookies_json w \<noteq> None \<Longrightarrow> removals (after_rejection w cs) = removals w + 1"
  by (simp add: after_rejection_def remove_cookies_file_def after_call_def)

lemma try_attempt_rejected:
  assumes "get_cookies browser w = (Inr cs, w1)" and "cs \<noteq> []"
    and "remote (length (http_log w)) (competitions_request cs) = GetResponse 403 body"
  shows "try_attempt remote browser w = (Inr NextAttempt, after_rejection w1 cs)"
  using assms get_cookies_frame [OF assms(1)]
  by (simp add: try_attempt_def Let_def after_rejection_def after_call_def)

lemma try_attempt_raises:
  assumes "get_cookies browser w = (Inr cs, w1)" and "cs \<noteq> []"
    and "remote (length (http_log w)) (competitions_request cs) = GetRaises e"
  shows "try_attempt remote browser w = (Inl e, after_call w1 cs)"
  using assms get_cookies_frame [OF assms(1)]
  by (simp add: try_attempt_def Let_def after_call_def)

lemma try_attempt_calls:
  assumes "get_cookies browser w = (Inr cs, w1)" and "cs \<noteq> []"
  shows "http_log (snd (try_attempt remote browser w))
           = http_log w @ [competitions_request cs]"
  using assms get_cookies_frame [OF assms(1)]
  by (auto simp add: try_attempt_def Let_def
      split: get_result.splits option.splits sum.splits)

lemma attempts_loop_done:
  "max_retries \<le> attempt \<Longrightarrow>
     attempts_loop remote browser attempt w = ([], AttemptsExhausted, w)"
  by (subst attempts_loop.simps) simp

lemma attempts_loop_last_world:
  "snd (snd (attempts_loop remote browser (Suc 0) w)) = snd (try_attempt remote browser w)"
  by (subst attempts_loop.simps)
    (auto simp add: max_retries_def attempts_loop_done
      split: prod.splits attempt_step.splits sum.splits)

lemma try_attempt_return_empty:
  "try_attempt remote browser w = (Inr (Return cs ret), w') \<Longrightarrow> ret \<noteq> ExtractedCompetitions
     \<Longrightarrow> cs = []"
  by (auto simp: try_attempt_def Let_def
      split: prod.splits sum.splits if_splits get_result.splits option.splits)

lemma except_attempt_return_empty:
  "except_attempt e attempt = Return cs ret \<Longrightarrow> cs = [] \<and> ret \<noteq> ExtractedCompetitions"
  by (auto simp: except_attempt_def split: if_splits)

text \<open>Every \<^verbatim>\<open>return\<close> of \<^verbatim>\<open>get_competitions\<close> but the one after the extraction returns
  the empty list.\<close>

lemma attempts_loop_failure_empty:
  "attempts_loop remote browser attempt w = (cs, ret, w') \<Longrightarrow> ret \<noteq> ExtractedCompetitions
     \<Longrightarrow> cs = []"
proof (induction "max_retries - attempt" arbitrary: attempt w)
  case 0
  then show ?case by (subst (asm) attempts_loop.simps) simp
next
  case (Suc d)
  have lt: "attempt < max_retries" using Suc.hyps(2) by simp
  have d: "d = max_retries - (attempt + 1)" using Suc.hyps(2) by simp
  have IH: "attempts_loop remote browser (attempt + 1) u = (cs, ret, w') \<Longrightarrow> cs = []" for u
    using Suc.hyps(1) [OF d _ Suc.prems(2)] .
  obtain r w1 where t: "try_attempt remote browser w = (r, w1)"
    by (cases "try_attempt remote browser w")
  define s where "s = (case r of Inl e \<Rightarrow> except_attempt e attempt | Inr s \<Rightarrow> s)"
  have unfold: "attempts_loop remote browser attempt w =
      (case s of Return competitions ret \<Rightarrow> (competitions, ret, w1)
       | NextAttempt \<Rightarrow> attempts_loop remote browser (attempt + 1) w1)"
    by (subst attempts_loop.simps) (simp add: lt t s_def)
  show ?case
  proof (cases s)
    case NextAttempt
    then show ?thesis using unfold Suc.prems(1) IH by simp
  next
    case (Return cs' ret')
    then have eq: "cs' = cs" "ret' = ret" using unfold Suc.prems(1) by simp_all
    show ?thesis
    proof (cases r)
      case (Inl e)
      then show ?thesis
        using Return eq except_attempt_return_empty [of e attempt cs ret] by (simp add: s_def)
    next
      case (Inr x)
      then have "try_attempt remote browser w = (Inr (Return cs ret), w1)"
        using Return eq t by (simp add: s_def)
      then show ?thesis using try_attempt_return_empty Suc.prems(2) by blast
    qed
  qed
qed

text \<open>The cookies of the example worlds.\<close>

lemma get_cookies_fresh:
  "get_cookies clearing_browser fresh_world =
     (Inr [(JStr ''cf_clearance'', JStr ''token'')],
      stored_world\<lparr>launches := 1, closes := 1\<rparr>)"
  by (simp add: get_cookies_def refresh_cookies_with_playwright_def fresh_world_def
      stored_world_def clearing_browser_def cookies_dict_of_def Let_def)

lemma get_cookies_stored:
  "cookies_json w = Some (cookies_json_of [(''cf_clearance'', ''token'')]) \<Longrightarrow>
     get_cookies browser w = (Inr [(JStr ''cf_clearance'', JStr ''token'')], w)"
  by (simp add: get_cookies_def read_cookies_file_def cookies_json_of_def dict_has_def)

lemma get_cookies_removed:
  "get_cookies clearing_browser (after_rejection w cs) =
     (Inr [(JStr ''cf_clearance'', JStr ''token'')],
      (after_rejection w cs)\<lparr>launches := launches w + 1,
         cookies_json := Some (cookies_json_of [(''cf_clearance'', ''token'')]),
         closes := closes w + 1\<rparr>)"
  by (simp add: get_cookies_def refresh_cookies_with_playwright_def clearing_browser_def
      cookies_dict_of_def Let_def after_rejection_def remove_cookies_file_def after_call_def)

subsection \<open>C3: two rejected attempts\<close>

text \<open>
  C3, as amended. When the remote answers every call with status 403 and
  \<^verbatim>\<open>get_cookies\<close> returns a non-empty cookie dict at both attempts (from the cookie file
  or from the challenge solver), \<^verbatim>\<open>get_competitions\<close> makes exactly two calls, removes
  the cookie file after each of them (two removals, no file left) and returns the empty
  list by the \<^verbatim>\<open>return\<close> after the retry loop. The code has no AuthExhausted value: the
  result is \<^verbatim>\<open>[]\<close>. The worlds \<open>w1\<close> and \<open>w2\<close> are those \<^verbatim>\<open>get_cookies\<close> leaves at
  the first and at the second attempt.
\<close>

theorem rejected_twice:
  assumes "\<forall>n call. \<exists>body. remote n call = GetResponse 403 body"
    and "get_cookies browser w = (Inr c1, w1)" and "c1 \<noteq> []"
    and "get_cookies browser (after_rejection w1 c1) = (Inr c2, w2)" and "c2 \<noteq> []"
  shows "get_competitions remote browser w = ([], AttemptsExhausted, after_rejection w2 c2)
       \<and> http_log (after_rejection w2 c2)
           = http_log w @ [competitions_request c1, competitions_request c2]
       \<and> removals (after_rejection w2 c2) = removals w + 2
       \<and> cookies_json (after_rejection w2 c2) = None"
proof -
  obtain b1 where r1: "remote (length (http_log w)) (competitions_request c1)
      = GetResponse 403 b1"
    using assms(1) by blast
  obtain b2 where r2: "remote (length (http_log (after_rejection w1 c1)))
      (competitions_request c2) = GetResponse 403 b2"
    using assms(1) by blast
  note f1 = get_cookies_frame [OF assms(2)]
  note f2 = get_cookies_frame [OF assms(4)]
  have a1: "try_attempt remote browser w = (Inr NextAttempt, after_rejection w1 c1)"
    using try_attempt_rejected [where remote = remote, OF assms(2) assms(3) r1] .
  have a2: "try_attempt remote browser (after_rejection w1 c1)
      = (Inr NextAttempt, after_rejection w2 c2)"
    using try_attempt_rejected [where remote = remote, OF assms(4) assms(5) r2] .
  have run: "get_competitions remote browser w = ([], AttemptsExhausted, after_rejection w2 c2)"
    unfolding get_competitions_def
    apply (subst attempts_loop.simps)
    apply (simp add: max_retries_def a1)
    apply (subst attempts_loop.simps)
    apply (simp add: max_retries_def a2 attempts_loop_done)
    done
  have log: "http_log (after_rejection w2 c2)
      = http_log w @ [competitions_request c1, competitions_request c2]"
    using f1 f2 by simp
  have rem1: "removals (after_rejection w1 c1) = removals w + 1"
    using removals_after_rejection [OF get_cookies_file [OF assms(2) assms(3)]] f1 by simp
  have rem2: "removals (after_rejection w2 c2) = removals w + 2"
    using removals_after_rejection [OF get_cookies_file [OF assms(4) assms(5)]] f2 rem1
    by simp
  show ?thesis using run log rem2 by simp
qed

theorem rejected_twice_witness:
  "fst (get_competitions rejecting_remote clearing_browser fresh_world) = []
   \<and> fst (snd (get_competitions rejecting_remote clearing_browser fresh_world))
       = AttemptsExhausted
   \<and> http_log (snd (snd (get_competitions rejecting_remote clearing_browser fresh_world)))
       = [competitions_request [(JStr ''cf_clearance'', JStr ''token'')],
          competitions_request [(JStr ''cf_clearance'', JStr ''token'')]]
   \<and> removals (snd (snd (get_competitions rejecting_remote clearing_browser fresh_world))) = 2
   \<and> cookies_json (snd (snd (get_competitions rejecting_remote clearing_browser fresh_world)))
       = None"
proof -
  have rej: "\<forall>n call. \<exists>body. rejecting_remote n call = GetResponse 403 body"
    by (simp add: rejecting_remote_def)
  have ne: "[(JStr ''cf_clearance'', JStr ''token'')] \<noteq> []"
    by simp
  show ?thesis
    using rejected_twice [OF rej get_cookies_fresh ne get_cookies_removed ne]
    by (simp add: fresh_world_def)
qed

text \<open>C3 as stated fails when no credentials can be had at the second attempt: with the
  clearance cookie stored and a browser whose navigation fails, the first call is
  rejected and the file removed, the refresh returns the empty dict, and the function
  returns after one call and one removal, by the \<^verbatim>\<open>return\<close> for missing cookies.\<close>

theorem rejected_twice_counterexample:
  "rejecting_remote 0 (competitions_request [(JStr ''cf_clearance'', JStr ''token'')])
     = GetResponse 403 None
   \<and> get_competitions rejecting_remote stuck_browser stored_world
     = ([], NoCookiesAvailable,
        fresh_world\<lparr>http_log := [competitions_request [(JStr ''cf_clearance'', JStr ''token'')]],
           launches := 1, closes := 1, removals := 1\<rparr>)"
  by (simp add: get_competitions_def attempts_loop.simps max_retries_def try_attempt_def
      get_cookies_def refresh_cookies_with_playwright_def fresh_world_def stored_world_def
      stuck_browser_def rejecting_remote_def read_cookies_file_def cookies_json_of_def
      dict_has_def remove_cookies_file_def Let_def)

subsection \<open>C4: transport failures\<close>

text \<open>
  C4, as amended. \<^verbatim>\<open>get_competitions\<close> does not end at a transport failure of its first
  attempt: when \<^verbatim>\<open>get_cookies\<close> returns a non-empty dict \<open>c1\<close> and the call raises a
  \<^verbatim>\<open>RequestException\<close>, the function goes on to the second attempt, and when
  \<^verbatim>\<open>get_cookies\<close> returns a non-empty dict \<open>c2\<close> there, a second call is made. Only a
  transport failure of that last attempt ends the operation, which then returns the
  empty list by the \<^verbatim>\<open>return\<close> of the handler. The paginated fetch does not retry: the
  first transport failure ends its loop, with the items of the pages before it and no
  request after the failed one.
\<close>

theorem transport_failure_handling:
  "(get_cookies browser w = (Inr c1, w1) \<longrightarrow> c1 \<noteq> [] \<longrightarrow>
    remote (length (http_log w)) (competitions_request c1) = GetRaises e1 \<longrightarrow>
    is_RequestException e1 \<longrightarrow>
    get_cookies browser (after_call w1 c1) = (Inr c2, w2) \<longrightarrow> c2 \<noteq> [] \<longrightarrow>
      http_log (snd (snd (get_competitions remote browser w)))
        = http_log w @ [competitions_request c1, competitions_request c2]
      \<and> (remote (length (http_log w) + 1) (competitions_request c2) = GetRaises e2 \<longrightarrow>
         is_RequestException e2 \<longrightarrow>
           get_competitions remote browser w
             = ([], RequestErrorOnLastAttempt, after_call w2 c2)))
   \<and> (length pages < max_pages \<longrightarrow> serves remote' a reqs event_id node_id pages \<longrightarrow>
      remote' (length reqs + length pages) (page_request a event_id node_id (length pages))
        = RequestFails \<longrightarrow>
      fetch_all_participants remote' a reqs event_id node_id =
        \<lparr>participants = concat pages, stopped = NetworkError,
         session = set_referer a event_id,
         sent = reqs @ map (page_request a event_id node_id) [0..<Suc (length pages)]\<rparr>)"
proof -
  have sync: "http_log (snd (snd (get_competitions remote browser w)))
        = http_log w @ [competitions_request c1, competitions_request c2]
      \<and> (remote (length (http_log w) + 1) (competitions_request c2) = GetRaises e2 \<longrightarrow>
         is_RequestException e2 \<longrightarrow>
           get_competitions remote browser w
             = ([], RequestErrorOnLastAttempt, after_call w2 c2))"
    if g1: "get_cookies browser w = (Inr c1, w1)" and n1: "c1 \<noteq> []"
      and r1: "remote (length (http_log w)) (competitions_request c1) = GetRaises e1"
      and e1: "is_RequestException e1"
      and g2: "get_cookies browser (after_call w1 c1) = (Inr c2, w2)" and n2: "c2 \<noteq> []"
  proof -
    note f1 = get_cookies_frame [OF g1]
    note f2 = get_cookies_frame [OF g2]
    have a1: "try_attempt remote browser w = (Inl e1, after_call w1 c1)"
      using try_attempt_raises [where remote = remote, OF g1 n1 r1] .
    have step: "get_competitions remote browser w
        = attempts_loop remote browser 1 (after_call w1 c1)"
      unfolding get_competitions_def
      by (subst attempts_loop.simps) (simp add: max_retries_def a1 except_attempt_def e1)
    have log: "http_log (snd (snd (get_competitions remote browser w)))
        = http_log w @ [competitions_request c1, competitions_request c2]"
      using try_attempt_calls [OF g2 n2, of remote] f1
      by (simp add: step attempts_loop_last_world)
    have last: "get_competitions remote browser w
        = ([], RequestErrorOnLastAttempt, after_call w2 c2)"
      if r2: "remote (length (http_log w) + 1) (competitions_request c2) = GetRaises e2"
        and e2: "is_RequestException e2"
    proof -
      have "remote (length (http_log (after_call w1 c1))) (competitions_request c2)
          = GetRaises e2"
        using r2 f1 by simp
      then have a2: "try_attempt remote browser (after_call w1 c1)
          = (Inl e2, after_call w2 c2)"
        using try_attempt_raises [where remote = remote, OF g2 n2] by simp
      show ?thesis
        unfolding step
        by (subst attempts_loop.simps) (simp add: max_retries_def a2 except_attempt_def e2)
    qed
    show ?thesis using log last by blast
  qed
  show ?thesis
    using sync fetch_all_transport [of pages remote' a reqs event_id node_id] by blast
qed

text \<open>The witness: a remote that never answers, with the solver's cookie at the first
  attempt and the stored one at the second; and a fetch whose page 0 holds one item and
  whose request for page 1 fails.\<close>

theorem transport_failure_handling_witness:
  "get_competitions failing_remote clearing_browser fresh_world
     = ([], RequestErrorOnLastAttempt,
        after_call (after_call (stored_world\<lparr>launches := 1, closes := 1\<rparr>)
            [(JStr ''cf_clearance'', JStr ''token'')])
          [(JStr ''cf_clearance'', JStr ''token'')])
   \<and> http_log (snd (snd (get_competitions failing_remote clearing_browser fresh_world)))
     = [competitions_request [(JStr ''cf_clearance'', JStr ''token'')],
        competitions_request [(JStr ''cf_clearance'', JStr ''token'')]]
   \<and> fetch_all_participants
        (\<lambda>n req. if page_of req = Some (PInt 0) then Response 200 (Some (page_body [JStr ''p'']))
                  else RequestFails)
        example_api [] ''E'' None =
       \<lparr>participants = [JStr ''p''], stopped = NetworkError,
        session = set_referer example_api ''E'',
        sent = [page_request example_api ''E'' None 0, page_request example_api ''E'' None 1]\<rparr>"
proof -
  let ?c = "[(JStr ''cf_clearance'', JStr ''token'')]"
  let ?w1 = "stored_world\<lparr>launches := 1, closes := 1\<rparr>"
  let ?r = "\<lambda>(n::nat) req. if page_of req = Some (PInt 0)
      then Response 200 (Some (page_body [JStr ''p''])) else RequestFails"
  have ne: "?c \<noteq> []" by simp
  have g2: "get_cookies clearing_browser (after_call ?w1 ?c) = (Inr ?c, after_call ?w1 ?c)"
    by (rule get_cookies_stored) (simp add: after_call_def stored_world_def)
  have r1: "failing_remote (length (http_log fresh_world)) (competitions_request ?c)
      = GetRaises ConnectionError"
    and r2: "failing_remote (length (http_log fresh_world) + 1) (competitions_request ?c)
      = GetRaises ConnectionError"
    by (simp_all add: failing_remote_def)
  have srv: "serves ?r example_api [] ''E'' None [[JStr ''p'']]"
    by (simp add: serves_def page_items_def is_http_error_def participant_list_def
        page_body_def)
  have len: "length [[JStr ''p'']] < max_pages"
    by (simp add: max_pages_def)
  have two: "[0..<Suc (Suc 0)] = [0, Suc 0]"
    by (simp add: upt_rec)
  have ex: "is_RequestException ConnectionError"
    by simp
  have r': "?r (length ([] :: request list) + length [[JStr ''p'']])
      (page_request example_api ''E'' None (length [[JStr ''p'']])) = RequestFails"
    by simp
  note t = transport_failure_handling [where browser = clearing_browser
      and remote = failing_remote and w = fresh_world and ?c1.0 = ?c and ?c2.0 = ?c
      and ?w1.0 = ?w1 and ?w2.0 = "after_call ?w1 ?c"
      and ?e1.0 = ConnectionError and ?e2.0 = ConnectionError
      and remote' = ?r and pages = "[[JStr ''p'']]" and a = example_api
      and reqs = "[]" and event_id = "''E''" and node_id = None]
  have sync: "http_log (snd (snd (get_competitions failing_remote clearing_browser fresh_world)))
        = http_log fresh_world @ [competitions_request ?c, competitions_request ?c]
      \<and> get_competitions failing_remote clearing_browser fresh_world
        = ([], RequestErrorOnLastAttempt, after_call (after_call ?w1 ?c) ?c)"
    using t get_cookies_fresh ne g2 r1 r2 ex by blast
  have fetch: "fetch_all_participants ?r example_api [] ''E'' None =
      \<lparr>participants = concat [[JStr ''p'']], stopped = NetworkError,
       session = set_referer example_api ''E'',
       sent = [] @ map (page_request example_api ''E'' None) [0..<Suc (length [[JStr ''p'']])]\<rparr>"
    using t srv len r' by blast
  have log0: "http_log fresh_world = []"
    by (simp add: fresh_world_def)
  show ?thesis
    using sync fetch by (simp add: log0 two stored_world_def fresh_world_def)
qed

text \<open>C4 as stated fails on \<^verbatim>\<open>get_competitions\<close>: after a connection error on the first
  call a second call is made, and its answer is the result of the operation.\<close>

theorem transport_failure_counterexample:
  "flaky_remote (JObj [(''events'', JArr [JObj [(''id'', JStr ''e1''), (''name'', JStr ''Open'')]])])
     0 (competitions_request [(JStr ''cf_clearance'', JStr ''token'')])
     = GetRaises ConnectionError
   \<and> get_competitions
       (flaky_remote (JObj [(''events'', JArr [JObj [(''id'', JStr ''e1''), (''name'', JStr ''Open'')]])]))
       clearing_browser fresh_world
     = ([[(''id'', JStr ''e1''), (''name'', JStr ''Open''), (''startDate'', JNull)]],
        ExtractedCompetitions,
        stored_world\<lparr>
           http_log := [competitions_request [(JStr ''cf_clearance'', JStr ''token'')],
                        competitions_request [(JStr ''cf_clearance'', JStr ''token'')]],
           launches := 1, closes := 1\<rparr>)"
  by (simp add: get_competitions_def attempts_loop.simps max_retries_def try_attempt_def
      get_cookies_def refresh_cookies_with_playwright_def fresh_world_def stored_world_def
      clearing_browser_def
      flaky_remote_def cookies_dict_of_def cookies_json_of_def dict_has_def
      read_cookies_file_def except_attempt_def
      is_http_error_def extract_competitions_def events_of_def competition_of_def dict_get_def
      Let_def)

subsection \<open>C5: a failing challenge solver\<close>

text \<open>
  C5 holds for the failures inside the \<^verbatim>\<open>try\<close> of
  \<^verbatim>\<open>_refresh_cookies_with_playwright\<close> and fails for the launch, which stands before it:
  a navigation error and a timeout give the empty dict with the browser closed, while a
  launch that fails raises out of the function and out of \<^verbatim>\<open>get_cookies\<close>; the
  catch-all handler of \<^verbatim>\<open>get_competitions\<close> is what turns it into an empty list.
\<close>

theorem launch_failure_propagates:
  "fst (refresh_cookies_with_playwright (\<lambda>n. NavigationFails) fresh_world) = Inr []
   \<and> fst (refresh_cookies_with_playwright (\<lambda>n. NavigationTimesOut) fresh_world) = Inr []
   \<and> fst (refresh_cookies_with_playwright (\<lambda>n. LaunchFails) fresh_world) = Inl PlaywrightError
   \<and> fst (get_cookies (\<lambda>n. LaunchFails) fresh_world) = Inl PlaywrightError
   \<and> fst (snd (get_competitions rejecting_remote (\<lambda>n. LaunchFails) fresh_world))
       = UnexpectedFailure"
  by (simp add: refresh_cookies_with_playwright_def get_cookies_def fresh_world_def Let_def
      get_competitions_def attempts_loop.simps max_retries_def try_attempt_def
      except_attempt_def)

subsection \<open>C6: what is handed to persistence\<close>

lemma competition_of_object: "competition_of (JObj event) = Inr (competition_fields event)"
  by (simp add: competition_of_def competition_fields_def dict_get_def split: option.splits)

lemma extract_loop_objects:
  "extract_loop (map JObj events) acc
     = Inr (acc @ map competition_fields (filter has_required_fields events))"
proof (induction events arbitrary: acc)
  case Nil
  then show ?case by simp
next
  case (Cons event events)
  have req: "(truthy (dict_get (competition_fields event) ''id'')
              \<and> truthy (dict_get (competition_fields event) ''name''))
             = has_required_fields event"
    by (simp add: has_required_fields_def competition_fields_def dict_get_def)
  show ?case
    by (simp add: competition_of_object req Cons.IH del: map_append)
qed

text \<open>
  C6, as amended. The paginated fetch passes the records through: a page whose nested
  list is \<open>xs\<close> extends the accumulated list by exactly \<open>xs\<close>. \<^verbatim>\<open>get_competitions\<close>,
  whose result is what \<^verbatim>\<open>save_competitions\<close> receives, does not: of a body whose events
  are objects it keeps, for each event with a true \<^verbatim>\<open>id\<close> and a true \<^verbatim>\<open>name\<close>, the
  fields \<^verbatim>\<open>id\<close>, \<^verbatim>\<open>name\<close> and \<^verbatim>\<open>startDate\<close> (the event's \<^verbatim>\<open>date\<close> when it has no
  \<^verbatim>\<open>startDate\<close>), and it drops the other events.
\<close>

theorem records_passed_or_projected:
  "(page_items r = Some xs \<longrightarrow> xs \<noteq> [] \<longrightarrow>
      try_page r all_participants = Inr (Continue (all_participants @ xs)))
   \<and> (events_of data = Inr (JArr (map JObj events)) \<longrightarrow>
      extract_competitions data
        = Inr (Some (map competition_fields (filter has_required_fields events))))"
  by (simp add: try_page_items extract_competitions_def extract_loop_objects)

theorem records_passed_or_projected_witness:
  "try_page (Response 200 (Some (page_body [JObj [(''firstName'', JStr ''A'')]]))) []
     = Inr (Continue [JObj [(''firstName'', JStr ''A'')]])
   \<and> extract_competitions (JObj [(''events'', JArr (map JObj
        [[(''id'', JStr ''e1''), (''name'', JStr ''Open''), (''date'', JStr ''2025-05-01'')],
         [(''id'', JStr ''e2'')]]))])
     = Inr (Some [[(''id'', JStr ''e1''), (''name'', JStr ''Open''),
                   (''startDate'', JStr ''2025-05-01'')]])"
proof -
  have pg: "page_items (Response 200 (Some (page_body [JObj [(''firstName'', JStr ''A'')]])))
      = Some [JObj [(''firstName'', JStr ''A'')]]"
    by (simp add: page_items_def is_http_error_def participant_list_def page_body_def)
  have ev: "events_of (JObj [(''events'', JArr (map JObj
        [[(''id'', JStr ''e1''), (''name'', JStr ''Open''), (''date'', JStr ''2025-05-01'')],
         [(''id'', JStr ''e2'')]]))])
      = Inr (JArr (map JObj
        [[(''id'', JStr ''e1''), (''name'', JStr ''Open''), (''date'', JStr ''2025-05-01'')],
         [(''id'', JStr ''e2'')]]))"
    by (simp add: events_of_def)
  show ?thesis
    using records_passed_or_projected [where r = "Response 200 (Some (page_body
          [JObj [(''firstName'', JStr ''A'')]]))"
        and xs = "[JObj [(''firstName'', JStr ''A'')]]" and all_participants = "[]"
        and data = "JObj [(''events'', JArr (map JObj
          [[(''id'', JStr ''e1''), (''name'', JStr ''Open''), (''date'', JStr ''2025-05-01'')],
           [(''id'', JStr ''e2'')]]))]"
        and events = "[[(''id'', JStr ''e1''), (''name'', JStr ''Open''),
            (''date'', JStr ''2025-05-01'')], [(''id'', JStr ''e2'')]]"]
      pg ev
    by (simp add: competition_fields_def has_required_fields_def dict_get_def)
qed

text \<open>C6 as stated fails on the sync: of the two events the remote returns, the first
  reaches \<^verbatim>\<open>save_competitions\<close> without its \<^verbatim>\<open>venue\<close> and with a \<^verbatim>\<open>startDate\<close> it did
  not have, and the second, which has no \<^verbatim>\<open>name\<close>, does not reach it.\<close>

theorem records_projected_counterexample:
  "fst (get_competitions
     (answering_remote (JObj [(''events'', JArr
        [JObj [(''id'', JStr ''e1''), (''name'', JStr ''Open''), (''venue'', JStr ''X'')],
         JObj [(''id'', JStr ''e2'')]])]))
     clearing_browser fresh_world)
   = [[(''id'', JStr ''e1''), (''name'', JStr ''Open''), (''startDate'', JNull)]]
   \<and> app_db (snd (sync_competitions example_real_text
     (answering_remote (JObj [(''events'', JArr
        [JObj [(''id'', JStr ''e1''), (''name'', JStr ''Open''), (''venue'', JStr ''X'')],
         JObj [(''id'', JStr ''e2'')]])]))
     clearing_browser fresh_world))
   = Usable (Some [\<lparr>row_id = Some ''e1'', row_name = Some ''Open'', row_start_date = None\<rparr>])"
  by (simp add: sync_competitions_def get_competitions_def attempts_loop.simps max_retries_def
      try_attempt_def
      get_cookies_def refresh_cookies_with_playwright_def fresh_world_def clearing_browser_def
      answering_remote_def cookies_dict_of_def read_cookies_file_def except_attempt_def
      is_http_error_def extract_competitions_def events_of_def competition_of_def dict_get_def
      save_competitions_def bind_row_def insert_or_replace_def
      Let_def)

subsection \<open>C7: what the sync route reports\<close>

text \<open>
  C7, as amended. The sync route does not tell a failed fetch from a fetch that found
  nothing: whenever \<^verbatim>\<open>get_competitions\<close> leaves by any \<^verbatim>\<open>return\<close> but the one after
  the extraction (no cookies, rejected credentials, request, parsing or other errors), or
  returns an empty list, the response is the same one, status 404 with the message
  ``No competitions found or API call failed'' and count 0.
\<close>

theorem sync_reports_failure_as_not_found:
  assumes "fst (snd (get_competitions remote browser w)) \<noteq> ExtractedCompetitions
     \<or> fst (get_competitions remote browser w) = []"
  shows "fst (sync_competitions real_text remote browser w) = not_found_reply"
proof -
  obtain cs ret w' where g: "get_competitions remote browser w = (cs, ret, w')"
    by (cases "get_competitions remote browser w")
  have "cs = []"
    using assms g attempts_loop_failure_empty [of remote browser 0 w cs ret w']
    by (auto simp: get_competitions_def)
  then show ?thesis by (simp add: sync_competitions_def g)
qed

theorem sync_reports_failure_as_not_found_witness:
  "fst (snd (get_competitions rejecting_remote clearing_browser fresh_world))
     \<noteq> ExtractedCompetitions
   \<and> fst (sync_competitions example_real_text rejecting_remote clearing_browser fresh_world)
       = not_found_reply"
proof -
  have ret: "fst (snd (get_competitions rejecting_remote clearing_browser fresh_world))
      \<noteq> ExtractedCompetitions"
    by (simp add: get_competitions_def attempts_loop.simps max_retries_def try_attempt_def
        get_cookies_def refresh_cookies_with_playwright_def fresh_world_def
        clearing_browser_def rejecting_remote_def cookies_dict_of_def read_cookies_file_def
        remove_cookies_file_def Let_def)
  show ?thesis
    using sync_reports_failure_as_not_found [of rejecting_remote clearing_browser fresh_world
        example_real_text] ret
    by simp
qed

text \<open>C7 as stated fails: a run whose two attempts are rejected with status 403 and a run
  whose request succeeds and finds no event get the same response.\<close>

theorem sync_reports_counterexample:
  "fst (snd (get_competitions rejecting_remote clearing_browser fresh_world)) = AttemptsExhausted
   \<and> fst (snd (get_competitions (answering_remote (JObj [(''events'', JArr [])]))
                 clearing_browser fresh_world)) = ExtractedCompetitions
   \<and> fst (sync_competitions example_real_text rejecting_remote clearing_browser fresh_world)
     = fst (sync_competitions example_real_text
              (answering_remote (JObj [(''events'', JArr [])]))
              clearing_browser fresh_world)"
  by (simp add: sync_competitions_def get_competitions_def attempts_loop.simps max_retries_def
      try_attempt_def
      get_cookies_def refresh_cookies_with_playwright_def fresh_world_def clearing_browser_def
      rejecting_remote_def answering_remote_def cookies_dict_of_def read_cookies_file_def
      except_attempt_def remove_cookies_file_def
      is_http_error_def extract_competitions_def events_of_def competition_of_def dict_get_def
      Let_def)

subsection \<open>C8: saving twice\<close>

lemma insert_all_bind:
  "insert_all real_text cs rows =
     (case bind_all real_text cs of
        Inl e \<Rightarrow> Inl e
      | Inr rs \<Rightarrow> Inr (fold insert_or_replace rs rows))"
  by (induction cs arbitrary: rows) (auto split: sum.splits)

text \<open>Only \<^verbatim>\<open>None\<close> and the float \<^verbatim>\<open>NaN\<close> are stored as NULL.\<close>

lemma adapt_null:
  "adapt real_text v = Inr c \<Longrightarrow> v \<noteq> JNull \<Longrightarrow> v \<noteq> JFloat NaN \<Longrightarrow> c \<noteq> None"
  by (cases v) (auto split: if_splits)

lemma bind_row_id:
  "bind_row real_text c = Inr r \<Longrightarrow> dict_get c ''id'' \<noteq> JNull \<Longrightarrow>
     dict_get c ''id'' \<noteq> JFloat NaN \<Longrightarrow> row_id r \<noteq> None"
  by (auto simp: bind_row_def split: sum.splits dest!: adapt_null)

lemma bind_all_ids:
  "bind_all real_text cs = Inr rs \<Longrightarrow>
     \<forall>c\<in>set cs. dict_get c ''id'' \<noteq> JNull \<and> dict_get c ''id'' \<noteq> JFloat NaN \<Longrightarrow>
     \<forall>r\<in>set rs. row_id r \<noteq> None"
  by (induction cs arbitrary: rs) (auto split: sum.splits dest: bind_row_id)

lemma set_last_of_key: "set (last_of_key rs) \<subseteq> set rs"
  by (induction rs) auto

text \<open>Inserting rows with keys: the old rows with other keys stay, in their order, and
  after them comes the last row of each new key.\<close>

lemma fold_insert_or_replace:
  "\<forall>r\<in>set rs. row_id r \<noteq> None \<Longrightarrow>
   fold insert_or_replace rs rows
     = filter (\<lambda>x. row_id x \<notin> row_id ` set rs) rows @ last_of_key rs"
proof (induction rs arbitrary: rows)
  case Nil
  then show ?case by simp
next
  case (Cons r rs)
  obtain k where k: "row_id r = Some k" using Cons.prems by auto
  have ior: "insert_or_replace r rows = filter (\<lambda>x. row_id x \<noteq> Some k) rows @ [r]"
    by (simp add: insert_or_replace_def k)
  have IH: "fold insert_or_replace rs rows'
      = filter (\<lambda>x. row_id x \<notin> row_id ` set rs) rows' @ last_of_key rs" for rows'
    using Cons by simp
  have "fold insert_or_replace (r # rs) rows
      = filter (\<lambda>x. row_id x \<notin> row_id ` set rs) (filter (\<lambda>x. row_id x \<noteq> Some k) rows @ [r])
        @ last_of_key rs"
    by (simp add: ior IH)
  also have "\<dots> = filter (\<lambda>x. row_id x \<notin> row_id ` set (r # rs)) rows @ last_of_key (r # rs)"
    by (auto simp: k intro: filter_cong)
  finally show ?case .
qed

lemma fold_insert_or_replace_twice:
  assumes "\<forall>r\<in>set rs. row_id r \<noteq> None"
  shows "fold insert_or_replace rs (fold insert_or_replace rs rows)
           = fold insert_or_replace rs rows"
proof -
  have "filter (\<lambda>x. row_id x \<notin> row_id ` set rs) (last_of_key rs) = []"
    using set_last_of_key [of rs] by (auto simp: filter_empty_conv)
  then show ?thesis
    by (simp add: fold_insert_or_replace [OF assms])
qed

text \<open>
  C8, as amended. For every database state, every rendering of floats and every list
  of records in which each \<^verbatim>\<open>id\<close> is stored as a key that is not NULL, that is, each
  \<^verbatim>\<open>id\<close> is neither \<^verbatim>\<open>None\<close> (or missing) nor the float \<^verbatim>\<open>NaN\<close>, saving the list a
  second time gives the same outcome and leaves the database as the first save left it.
\<close>

theorem save_competitions_idempotent:
  assumes "\<forall>c\<in>set competitions.
             dict_get c ''id'' \<noteq> JNull \<and> dict_get c ''id'' \<noteq> JFloat NaN"
  shows "save_competitions real_text competitions
           (snd (save_competitions real_text competitions db))
         = save_competitions real_text competitions db"
proof (cases db)
  case Unusable
  then show ?thesis by (simp add: save_competitions_def)
next
  case (Usable t)
  show ?thesis
  proof (cases "bind_all real_text competitions")
    case (Inl e)
    then show ?thesis
      by (simp add: save_competitions_def Usable insert_all_bind Let_def)
  next
    case (Inr rs)
    have "\<forall>r\<in>set rs. row_id r \<noteq> None" using bind_all_ids [OF Inr assms] .
    then show ?thesis
      by (simp add: save_competitions_def Usable insert_all_bind Inr Let_def
          fold_insert_or_replace_twice)
  qed
qed

theorem save_competitions_idempotent_witness:
  "dict_get [(''id'', JStr ''e1''), (''name'', JStr ''Open'')] ''id'' \<noteq> JNull
   \<and> dict_get [(''id'', JStr ''e1''), (''name'', JStr ''Open'')] ''id'' \<noteq> JFloat NaN
   \<and> save_competitions example_real_text [[(''id'', JStr ''e1''), (''name'', JStr ''Open'')]]
       (snd (save_competitions example_real_text
          [[(''id'', JStr ''e1''), (''name'', JStr ''Open'')]]
          (Usable (Some [\<lparr>row_id = Some ''e1'', row_name = Some ''Old'',
             row_start_date = None\<rparr>]))))
     = (None, Usable (Some [\<lparr>row_id = Some ''e1'', row_name = Some ''Open'',
          row_start_date = None\<rparr>]))"
proof -
  have ids: "\<forall>c\<in>set [[(''id'', JStr ''e1''), (''name'', JStr ''Open'')]].
      dict_get c ''id'' \<noteq> JNull \<and> dict_get c ''id'' \<noteq> JFloat NaN"
    by (simp add: dict_get_def)
  show ?thesis
    unfolding save_competitions_idempotent [OF ids]
    by (simp add: save_competitions_def bind_row_def dict_get_def insert_or_replace_def)
qed

text \<open>C8 as stated fails for a record without an \<^verbatim>\<open>id\<close>: its key is NULL, NULL keys never
  conflict, and every save adds one more row. The same happens for an \<^verbatim>\<open>id\<close> that is the
  float \<^verbatim>\<open>NaN\<close>.\<close>

theorem save_competitions_counterexample:
  "snd (save_competitions example_real_text [[(''name'', JStr ''A'')]] (Usable (Some [])))
     = Usable (Some [\<lparr>row_id = None, row_name = Some ''A'', row_start_date = None\<rparr>])
   \<and> snd (save_competitions example_real_text [[(''name'', JStr ''A'')]]
         (snd (save_competitions example_real_text [[(''name'', JStr ''A'')]]
            (Usable (Some [])))))
     = Usable (Some [\<lparr>row_id = None, row_name = Some ''A'', row_start_date = None\<rparr>,
                     \<lparr>row_id = None, row_name = Some ''A'', row_start_date = None\<rparr>])
   \<and> snd (save_competitions example_real_text [[(''id'', JFloat NaN), (''name'', JStr ''B'')]]
         (snd (save_competitions example_real_text
            [[(''id'', JFloat NaN), (''name'', JStr ''B'')]] (Usable (Some [])))))
     = Usable (Some [\<lparr>row_id = None, row_name = Some ''B'', row_start_date = None\<rparr>,
                     \<lparr>row_id = None, row_name = Some ''B'', row_start_date = None\<rparr>])"
  by (simp add: save_competitions_def bind_row_def dict_get_def insert_or_replace_def)

subsection \<open>C10: listing the stored competitions\<close>

lemma start_date_row_dict:
  "(case map_of (row_dict r) ''start_date'' of Some (JStr s) \<Rightarrow> Some s | _ \<Rightarrow> None)
     = row_start_date r"
  by (simp add: row_dict_def cell_value_def split: option.splits)

text \<open>
  C10. For every database state, \<^verbatim>\<open>get_competitions_from_db\<close> returns the stored rows,
  each one once and as the dict of its \<^verbatim>\<open>id\<close>, \<^verbatim>\<open>name\<close> and \<^verbatim>\<open>start_date\<close> (a NULL
  cell as \<^verbatim>\<open>None\<close>, a text as a string), and the returned list is in ascending order of
  the \<^verbatim>\<open>start_date\<close> of its records (\<^verbatim>\<open>None\<close> first, then the texts byte by byte). It
  returns the empty list when the database raises an error: when it cannot be used and
  when it has no table \<^verbatim>\<open>competitions\<close>.
\<close>

theorem stored_competitions_sorted:
  "get_competitions_from_db Unusable = []
   \<and> get_competitions_from_db (Usable None) = []
   \<and> mset (get_competitions_from_db (Usable (Some rows)))
       = mset (map (\<lambda>r. [(''id'', case row_id r of None \<Rightarrow> JNull | Some s \<Rightarrow> JStr s),
                          (''name'', case row_name r of None \<Rightarrow> JNull | Some s \<Rightarrow> JStr s),
                          (''start_date'',
                             case row_start_date r of None \<Rightarrow> JNull | Some s \<Rightarrow> JStr s)])
                  rows)
   \<and> sorted (map (\<lambda>d. case map_of d ''start_date'' of Some (JStr s) \<Rightarrow> Some s | _ \<Rightarrow> None)
        (get_competitions_from_db (Usable (Some rows))))"
proof -
  have dict: "row_dict = (\<lambda>r. [(''id'', case row_id r of None \<Rightarrow> JNull | Some s \<Rightarrow> JStr s),
      (''name'', case row_name r of None \<Rightarrow> JNull | Some s \<Rightarrow> JStr s),
      (''start_date'', case row_start_date r of None \<Rightarrow> JNull | Some s \<Rightarrow> JStr s)])"
    by (rule ext) (simp add: row_dict_def cell_value_def)
  have records: "mset (map row_dict (sort_key row_start_date rows)) = mset (map row_dict rows)"
    by simp
  have keys: "map (\<lambda>d. case map_of d ''start_date'' of Some (JStr s) \<Rightarrow> Some s | _ \<Rightarrow> None)
      (map row_dict (sort_key row_start_date rows))
      = map row_start_date (sort_key row_start_date rows)"
    by (simp add: start_date_row_dict comp_def)
  have sorted: "sorted (map (\<lambda>d. case map_of d ''start_date'' of
      Some (JStr s) \<Rightarrow> Some s | _ \<Rightarrow> None) (map row_dict (sort_key row_start_date rows)))"
    unfolding keys by (rule sorted_sort_key)
  show ?thesis
    using records sorted unfolding dict
    by (simp add: get_competitions_from_db_def dict)
qed

end
